theory Spec2Isabelle
  imports Complex_Main
begin

section \<open>JavaScript values used by the dashboard\<close>

text \<open>
  A JavaScript string is a sequence of UTF-16 code units; a code unit is a natural number.
  \<open>ascii\<close> turns an ASCII literal into its code units, so that the literals of the
  source can be written as they are.
\<close>

type_synonym jsstring = "nat list"

definition ascii :: "string \<Rightarrow> jsstring" where
  "ascii s = map of_char s"

text \<open>
  A JavaScript number is \<open>NaN\<close>, an infinity or a finite value. Finite values are
  exact rationals, and \<open>js_div\<close>, \<open>js_mul\<close> and \<open>js_add\<close> below are the exact operations,
  without the rounding, overflow and signed zero of IEEE doubles. The rounding step of the
  pricing engine is the exception: which multiple it returns depends on how the quotient
  is rounded to a double, so \<open>roundToNearest\<close> computes in binary64 (\<open>toDouble\<close> below).
  \<open>null\<close> and \<open>undefined\<close> are \<open>None\<close> of an option type.
\<close>

datatype jsnum = NaN | PInf | NInf | Fin rat

text \<open>Truthiness of a number: \<open>0\<close> and \<open>NaN\<close> are falsy.\<close>

fun truthy :: "jsnum \<Rightarrow> bool" where
  "truthy NaN = False"
| "truthy (Fin x) = (x \<noteq> 0)"
| "truthy PInf = True"
| "truthy NInf = True"

text \<open>\<open>v || null\<close> for a number \<open>v\<close>.\<close>

definition orNull :: "jsnum \<Rightarrow> jsnum option" where
  "orNull v = (if truthy v then Some v else None)"

text \<open>The relational operators \<open>>\<close> and \<open>>=\<close>; every comparison with \<open>NaN\<close> is false.\<close>

fun js_gt :: "jsnum \<Rightarrow> jsnum \<Rightarrow> bool" where
  "js_gt NaN _ = False"
| "js_gt _ NaN = False"
| "js_gt (Fin x) (Fin y) = (x > y)"
| "js_gt PInf PInf = False"
| "js_gt PInf _ = True"
| "js_gt NInf _ = False"
| "js_gt (Fin x) PInf = False"
| "js_gt (Fin x) NInf = True"

fun js_ge :: "jsnum \<Rightarrow> jsnum \<Rightarrow> bool" where
  "js_ge NaN _ = False"
| "js_ge _ NaN = False"
| "js_ge a b = (a = b \<or> js_gt a b)"

fun isNaN :: "jsnum \<Rightarrow> bool" where
  "isNaN NaN = True"
| "isNaN _ = False"

text \<open>Whether a number is below zero.\<close>

fun negative :: "jsnum \<Rightarrow> bool" where
  "negative (Fin x) = (x < 0)"
| "negative NInf = True"
| "negative _ = False"

definition inf_of :: "bool \<Rightarrow> jsnum" where
  "inf_of neg = (if neg then NInf else PInf)"

text \<open>Division \<open>a / b\<close>.\<close>

fun js_div :: "jsnum \<Rightarrow> jsnum \<Rightarrow> jsnum" where
  "js_div NaN _ = NaN"
| "js_div _ NaN = NaN"
| "js_div (Fin x) (Fin y) =
     (if y = 0 then (if x = 0 then NaN else inf_of (x < 0)) else Fin (x / y))"
| "js_div (Fin x) _ = Fin 0"
| "js_div a (Fin y) = inf_of (negative a \<noteq> (y < 0))"
| "js_div _ _ = NaN"

text \<open>Multiplication \<open>a * b\<close>.\<close>

fun js_mul :: "jsnum \<Rightarrow> jsnum \<Rightarrow> jsnum" where
  "js_mul NaN _ = NaN"
| "js_mul _ NaN = NaN"
| "js_mul (Fin x) (Fin y) = Fin (x * y)"
| "js_mul (Fin x) b = (if x = 0 then NaN else inf_of (negative b \<noteq> (x < 0)))"
| "js_mul a (Fin y) = (if y = 0 then NaN else inf_of (negative a \<noteq> (y < 0)))"
| "js_mul a b = inf_of (negative a \<noteq> negative b)"

text \<open>Addition \<open>a + b\<close>.\<close>

fun js_add :: "jsnum \<Rightarrow> jsnum \<Rightarrow> jsnum" where
  "js_add NaN _ = NaN"
| "js_add _ NaN = NaN"
| "js_add (Fin x) (Fin y) = Fin (x + y)"
| "js_add (Fin x) b = b"
| "js_add a (Fin y) = a"
| "js_add a b = (if a = b then a else NaN)"

text \<open>
  \<open>Math.round\<close>: the nearest integer, a tie going to the larger one
  (\<open>Math.round(2.5) = 3\<close>, \<open>Math.round(-2.5) = -2\<close>).
\<close>

fun Math_round :: "jsnum \<Rightarrow> jsnum" where
  "Math_round (Fin x) = Fin (of_int \<lfloor>x + 1 / 2\<rfloor>)"
| "Math_round a = a"

subsection \<open>Binary64\<close>

text \<open>\<open>\<lfloor>log\<^sub>2 n\<rfloor>\<close> for a natural number \<open>n \<ge> 1\<close>, and \<open>\<lfloor>log\<^sub>2 x\<rfloor>\<close> for a rational \<open>x > 0\<close>.\<close>

function ilog2 :: "nat \<Rightarrow> nat" where
  "ilog2 n = (if n < 2 then 0 else Suc (ilog2 (n div 2)))"
  by pat_completeness auto
termination
  by (relation "measure id") auto

declare ilog2.simps [simp del]

definition floorLog2 :: "rat \<Rightarrow> int" where
  "floorLog2 x =
     (if 1 \<le> x then int (ilog2 (nat \<lfloor>x\<rfloor>))
      else - int (Suc (ilog2 (nat \<lceil>1 / x\<rceil> - 1))))"

definition pow2 :: "int \<Rightarrow> rat" where
  "pow2 e = (if 0 \<le> e then 2 ^ nat e else 1 / 2 ^ nat (- e))"

text \<open>The nearest integer, a tie going to the even one.\<close>

definition roundHalfEven :: "rat \<Rightarrow> int" where
  "roundHalfEven m =
     (if m - of_int \<lfloor>m\<rfloor> < 1 / 2 then \<lfloor>m\<rfloor>
      else if 1 / 2 < m - of_int \<lfloor>m\<rfloor> then \<lfloor>m\<rfloor> + 1
      else if even \<lfloor>m\<rfloor> then \<lfloor>m\<rfloor> else \<lfloor>m\<rfloor> + 1)"

text \<open>
  The binary64 value nearest to a rational, ties to even: 53 significant bits, the
  exponent not below -1022 (so that subnormal numbers are spaced \<open>pow2 (- 1074)\<close> apart),
  and an infinity when the rounded magnitude reaches \<open>2 ^ 1024\<close>. The sign of a zero is
  not kept.
\<close>

definition toDouble :: "rat \<Rightarrow> jsnum" where
  "toDouble x =
     (if x = 0 then Fin 0
      else
        let ulp = pow2 (max (floorLog2 \<bar>x\<bar>) (- 1022) - 52);
            r = of_int (roundHalfEven (\<bar>x\<bar> / ulp)) * ulp
        in if 2 ^ 1024 \<le> r then (if x < 0 then NInf else PInf)
           else Fin (if x < 0 then - r else r))"

text \<open>The double that a number stands for.\<close>

definition dbl :: "jsnum \<Rightarrow> jsnum" where
  "dbl a = (case a of Fin x \<Rightarrow> toDouble x | _ \<Rightarrow> a)"

section \<open>Host functions on strings\<close>

text \<open>
  \<open>WhiteSpace\<close> and \<open>LineTerminator\<close> of ECMAScript, the code units that
  \<open>String.prototype.trim\<close>, \<open>parseFloat\<close> and \<open>parseInt\<close> strip: TAB, LF, VT, FF, CR,
  SPACE, NBSP, U+1680, U+2000 to U+200A, U+2028, U+2029, U+202F, U+205F, U+3000, U+FEFF.
\<close>

definition isWhiteSpace :: "nat \<Rightarrow> bool" where
  "isWhiteSpace c =
     (c = 9 \<or> c = 10 \<or> c = 11 \<or> c = 12 \<or> c = 13 \<or> c = 32 \<or> c = 160 \<or> c = 5760
      \<or> (8192 \<le> c \<and> c \<le> 8202) \<or> c = 8232 \<or> c = 8233 \<or> c = 8239 \<or> c = 8287
      \<or> c = 12288 \<or> c = 65279)"

definition trimStart :: "jsstring \<Rightarrow> jsstring" where
  "trimStart s = dropWhile isWhiteSpace s"

definition trim :: "jsstring \<Rightarrow> jsstring" where
  "trim s = rev (dropWhile isWhiteSpace (rev (dropWhile isWhiteSpace s)))"

text \<open>\<open>s.startsWith(p)\<close> and \<open>s.includes(p)\<close>.\<close>

fun startsWith :: "jsstring \<Rightarrow> jsstring \<Rightarrow> bool" where
  "startsWith s [] = True"
| "startsWith [] (p # ps) = False"
| "startsWith (c # cs) (p # ps) = (c = p \<and> startsWith cs ps)"

fun includesStr :: "jsstring \<Rightarrow> jsstring \<Rightarrow> bool" where
  "includesStr [] p = (p = [])"
| "includesStr (c # cs) p = (startsWith (c # cs) p \<or> includesStr cs p)"

text \<open>Decimal digits \<open>0\<close> to \<open>9\<close> and the value of a run of them.\<close>

definition isDigit :: "nat \<Rightarrow> bool" where
  "isDigit c = (48 \<le> c \<and> c \<le> 57)"

definition decVal :: "jsstring \<Rightarrow> nat" where
  "decVal ds = foldl (\<lambda>a c. 10 * a + (c - 48)) 0 ds"

text \<open>Hexadecimal digits, for \<open>parseInt\<close> of a string that starts with \<open>0x\<close>.\<close>

definition isHexDigit :: "nat \<Rightarrow> bool" where
  "isHexDigit c = (isDigit c \<or> (65 \<le> c \<and> c \<le> 70) \<or> (97 \<le> c \<and> c \<le> 102))"

definition hexDigitVal :: "nat \<Rightarrow> nat" where
  "hexDigitVal c = (if isDigit c then c - 48 else if c \<le> 70 then c - 55 else c - 87)"

definition hexVal :: "jsstring \<Rightarrow> nat" where
  "hexVal ds = foldl (\<lambda>a c. 16 * a + hexDigitVal c) 0 ds"

text \<open>\<open>m \<times> 10\<^sup>e\<close> for an integer exponent.\<close>

definition scale10 :: "rat \<Rightarrow> int \<Rightarrow> rat" where
  "scale10 m e = (if 0 \<le> e then m * 10 ^ nat e else m / 10 ^ nat (- e))"

text \<open>
  The exponent part of a decimal literal: \<open>e\<close> or \<open>E\<close>, an optional sign and at
  least one digit. A string that does not start with one has exponent 0 (the literal
  ends before it).
\<close>

definition signedDigits :: "jsstring \<Rightarrow> int" where
  "signedDigits s =
     (case s of
        [] \<Rightarrow> 0
      | c # t \<Rightarrow>
          if c = 43 then (if takeWhile isDigit t = [] then 0 else int (decVal (takeWhile isDigit t)))
          else if c = 45 then (if takeWhile isDigit t = [] then 0 else - int (decVal (takeWhile isDigit t)))
          else int (decVal (takeWhile isDigit s)))"

definition exponentPart :: "jsstring \<Rightarrow> int" where
  "exponentPart s =
     (case s of
        [] \<Rightarrow> 0
      | c # t \<Rightarrow> if c = 101 \<or> c = 69 then signedDigits t else 0)"

text \<open>
  The longest prefix that is a \<open>StrUnsignedDecimalLiteral\<close> other than
  \<open>Infinity\<close>: digits, an optional point and digits, an optional exponent, with at
  least one digit before the exponent. \<open>None\<close> when there is no such prefix.
\<close>

definition unsignedDecimal :: "jsstring \<Rightarrow> rat option" where
  "unsignedDecimal s =
     (let ip = takeWhile isDigit s;
          r1 = dropWhile isDigit s;
          fp = (case r1 of [] \<Rightarrow> [] | c # t \<Rightarrow> if c = 46 then takeWhile isDigit t else []);
          r2 = (case r1 of [] \<Rightarrow> [] | c # t \<Rightarrow> if c = 46 then dropWhile isDigit t else r1)
      in if ip = [] \<and> fp = [] then None
         else Some (scale10 (of_nat (decVal ip) + of_nat (decVal fp) / 10 ^ length fp)
                            (exponentPart r2)))"

definition signedDecimal :: "bool \<Rightarrow> jsstring \<Rightarrow> jsnum" where
  "signedDecimal neg s =
     (if startsWith s (ascii ''Infinity'') then inf_of neg
      else case unsignedDecimal s of
             None \<Rightarrow> NaN
           | Some q \<Rightarrow> Fin (if neg then - q else q))"

text \<open>
  \<open>parseFloat(s)\<close>: leading white space is skipped, then the longest prefix that is a
  signed decimal literal is read; \<open>NaN\<close> when there is none. The value is the exact value
  of the literal.
\<close>

definition parseFloat :: "jsstring \<Rightarrow> jsnum" where
  "parseFloat s =
     (case trimStart s of
        [] \<Rightarrow> NaN
      | c # t \<Rightarrow>
          if c = 43 then signedDecimal False t
          else if c = 45 then signedDecimal True t
          else signedDecimal False (c # t))"

text \<open>
  \<open>parseInt(s)\<close> without a radix: leading white space and a sign are skipped, a
  \<open>0x\<close> or \<open>0X\<close> prefix selects radix 16, and the longest run of digits of the radix
  is read; \<open>NaN\<close> when the run is empty.
\<close>

definition unsignedInt :: "jsstring \<Rightarrow> nat option" where
  "unsignedInt s =
     (if startsWith s (ascii ''0x'') \<or> startsWith s (ascii ''0X'')
      then (if takeWhile isHexDigit (drop 2 s) = [] then None
            else Some (hexVal (takeWhile isHexDigit (drop 2 s))))
      else (if takeWhile isDigit s = [] then None
            else Some (decVal (takeWhile isDigit s))))"

definition signedInt :: "bool \<Rightarrow> jsstring \<Rightarrow> jsnum" where
  "signedInt neg s =
     (case unsignedInt s of
        None \<Rightarrow> NaN
      | Some n \<Rightarrow> Fin (if neg then - of_nat n else of_nat n))"

definition parseInt :: "jsstring \<Rightarrow> jsnum" where
  "parseInt s =
     (case trimStart s of
        [] \<Rightarrow> NaN
      | c # t \<Rightarrow>
          if c = 43 then signedInt False t
          else if c = 45 then signedInt True t
          else signedInt False (c # t))"

text \<open>
  \<open>ToString\<close> of a value that is a string or \<open>undefined\<close>, as \<open>parseFloat\<close> and
  \<open>parseInt\<close> apply it to their argument.
\<close>

definition ToString :: "jsstring option \<Rightarrow> jsstring" where
  "ToString v = (case v of None \<Rightarrow> ascii ''undefined'' | Some s \<Rightarrow> s)"

section \<open>Records of the dashboard\<close>

text \<open>
  Field names carry a prefix, since the source uses the same names (\<open>sku\<close>,
  \<open>price\<close>, \<open>name\<close>, \<open>cost\<close>, \<open>stock\<close>) in several objects:
  \<open>t_\<close> for an item of \<open>parseTradeIdSheet\<close>, \<open>d_\<close> for an item of
  \<open>parseDigitalIdSheet\<close>, \<open>s1_\<close> and \<open>s2_\<close> for \<open>set1\<close> and \<open>set2\<close> of a
  combined product, \<open>p_\<close> for the product itself. \<open>None\<close> is \<open>null\<close>; in
  \<open>d_name\<close> and \<open>d_description\<close> it is a property that was not set.
\<close>

record trade_item =
  t_productId :: jsstring
  t_name :: jsstring
  t_price :: "jsnum option"
  t_sku :: jsstring
  t_stock :: "jsnum option"

record digital_item =
  d_sku :: jsstring
  d_price :: "jsnum option"
  d_name :: "jsstring option"
  d_description :: "jsstring option"

record set1 =
  s1_name :: jsstring
  s1_cost :: "jsnum option"
  s1_stock :: "jsnum option"

record set2 =
  s2_cost :: "jsnum option"

record product =
  p_sku :: jsstring
  p_productId :: jsstring
  p_set1 :: set1
  p_set2 :: set2

section \<open>Sheet parsers (worker)\<close>

text \<open>
  \<open>xs.findIndex(p)\<close>: the index of the first element that satisfies \<open>p\<close>, counting
  from 0, or \<open>-1\<close> when there is none.
\<close>

fun findIndexFrom :: "int \<Rightarrow> ('a \<Rightarrow> bool) \<Rightarrow> 'a list \<Rightarrow> int" where
  "findIndexFrom k p [] = - 1"
| "findIndexFrom k p (x # xs) = (if p x then k else findIndexFrom (k + 1) p xs)"

definition findIndex :: "('a \<Rightarrow> bool) \<Rightarrow> 'a list \<Rightarrow> int" where
  "findIndex p xs = findIndexFrom 0 p xs"

text \<open>
  \<open>row[i]\<close> on an array: \<open>undefined\<close> (here \<open>None\<close>) when \<open>i\<close> is \<open>-1\<close> or beyond
  the last cell.
\<close>

definition cell :: "jsstring list \<Rightarrow> int \<Rightarrow> jsstring option" where
  "cell row i = (if 0 \<le> i \<and> i < int (length row) then Some (row ! nat i) else None)"

text \<open>\<open>v || ''\<close> for a cell \<open>v\<close>.\<close>

definition orEmpty :: "jsstring option \<Rightarrow> jsstring" where
  "orEmpty v = (case v of None \<Rightarrow> [] | Some s \<Rightarrow> s)"

text \<open>
  \<open>parseTradeIdSheet(rows)\<close>. \<open>String.prototype.toLowerCase\<close> depends on the Unicode
  case tables of the host; it is the parameter \<open>lower\<close>.
\<close>

definition tradeRow :: "int \<Rightarrow> int \<Rightarrow> int \<Rightarrow> int \<Rightarrow> int \<Rightarrow> jsstring list \<Rightarrow> trade_item" where
  "tradeRow idIdx nameIdx priceIdx skuIdx stockIdx row =
     \<lparr> t_productId = orEmpty (cell row idIdx),
       t_name = orEmpty (cell row nameIdx),
       t_price = orNull (parseFloat (ToString (cell row priceIdx))),
       t_sku = orEmpty (cell row skuIdx),
       t_stock = orNull (parseInt (ToString (cell row stockIdx))) \<rparr>"

definition parseTradeIdSheet :: "(jsstring \<Rightarrow> jsstring) \<Rightarrow> jsstring list list \<Rightarrow> trade_item list" where
  "parseTradeIdSheet lower rows =
     (if length rows < 2 then []
      else
        let headers = hd rows;
            dataRows = tl rows;
            idIdx = findIndex (\<lambda>h. includesStr (lower h) (ascii ''product id'')) headers;
            nameIdx = findIndex (\<lambda>h. includesStr (lower h) (ascii ''product name'')) headers;
            priceIdx = findIndex (\<lambda>h. lower h = ascii ''price'') headers;
            skuIdx = findIndex (\<lambda>h. lower h = ascii ''sku'') headers;
            stockIdx = findIndex (\<lambda>h. lower h = ascii ''stock'') headers
        in filter (\<lambda>item. t_sku item \<noteq> [] \<and> t_price item \<noteq> Some (Fin (- 1)))
             (map (tradeRow idIdx nameIdx priceIdx skuIdx stockIdx) dataRows))"

text \<open>
  \<open>parseDigitalIdSheet(rows, includeDescription)\<close>. The price cell loses the code units
  of \<open>/[\<pounds>$\<euro>,]/g\<close> (163, 36, 8364, 44) and is trimmed before \<open>parseFloat\<close>.
\<close>

definition stripCurrency :: "jsstring \<Rightarrow> jsstring" where
  "stripCurrency s = filter (\<lambda>c. c \<noteq> 163 \<and> c \<noteq> 36 \<and> c \<noteq> 8364 \<and> c \<noteq> 44) s"

definition digitalRow :: "bool \<Rightarrow> int \<Rightarrow> int \<Rightarrow> int \<Rightarrow> int \<Rightarrow> jsstring list \<Rightarrow> digital_item" where
  "digitalRow includeDescription priceIdx skuIdx descIdx nameIdx row =
     (let priceStr = trim (stripCurrency (orEmpty (cell row priceIdx)))
      in \<lparr> d_sku = orEmpty (cell row skuIdx),
           d_price = orNull (parseFloat priceStr),
           d_name = (if includeDescription then Some (orEmpty (cell row nameIdx)) else None),
           d_description = (if includeDescription then Some (orEmpty (cell row descIdx)) else None) \<rparr>)"

definition parseDigitalIdSheet ::
    "(jsstring \<Rightarrow> jsstring) \<Rightarrow> jsstring list list \<Rightarrow> bool \<Rightarrow> digital_item list" where
  "parseDigitalIdSheet lower rows includeDescription =
     (if length rows < 2 then []
      else
        let headers = hd rows;
            dataRows = tl rows;
            priceIdx = findIndex (\<lambda>h. lower h = ascii ''price'') headers;
            skuIdx = findIndex (\<lambda>h. lower h = ascii ''sku'') headers;
            descIdx = findIndex (\<lambda>h. lower h = ascii ''description'') headers;
            nameIdx = findIndex (\<lambda>h. lower h = ascii ''name'') headers
        in filter (\<lambda>item. d_sku item \<noteq> [] \<and> d_price item \<noteq> Some (Fin (- 1)))
             (map (digitalRow includeDescription priceIdx skuIdx descIdx nameIdx) dataRows))"

section \<open>Reconciler (worker): \<open>combineData\<close>\<close>

text \<open>
  The \<open>Map\<close> from SKU to Digital Id price, filled in input order; a SKU that is already
  there is not set again. A value of the map may be \<open>null\<close>.
\<close>

fun digitalIdMap :: "(jsstring \<rightharpoonup> jsnum option) \<Rightarrow> digital_item list \<Rightarrow> (jsstring \<rightharpoonup> jsnum option)" where
  "digitalIdMap m [] = m"
| "digitalIdMap m (item # items) =
     (if m (d_sku item) = None then digitalIdMap (m(d_sku item \<mapsto> d_price item)) items
      else digitalIdMap m items)"

text \<open>The filter over the trade items with the set \<open>seenSkus\<close>.\<close>

fun dedupedTradeId :: "jsstring set \<Rightarrow> trade_item list \<Rightarrow> trade_item list" where
  "dedupedTradeId seenSkus [] = []"
| "dedupedTradeId seenSkus (item # items) =
     (if t_sku item \<in> seenSkus then dedupedTradeId seenSkus items
      else item # dedupedTradeId (insert (t_sku item) seenSkus) items)"

text \<open>\<open>digitalIdMap.get(sku) || null\<close>: an absent key, \<open>null\<close>, \<open>0\<close> and \<open>NaN\<close> give \<open>null\<close>.\<close>

definition getOrNull :: "(jsstring \<rightharpoonup> jsnum option) \<Rightarrow> jsstring \<Rightarrow> jsnum option" where
  "getOrNull m k =
     (case m k of
        None \<Rightarrow> None
      | Some None \<Rightarrow> None
      | Some (Some v) \<Rightarrow> orNull v)"

definition combineItem :: "(jsstring \<rightharpoonup> jsnum option) \<Rightarrow> trade_item \<Rightarrow> product" where
  "combineItem m item =
     \<lparr> p_sku = t_sku item,
       p_productId = t_productId item,
       p_set1 = \<lparr> s1_name = t_name item, s1_cost = t_price item, s1_stock = t_stock item \<rparr>,
       p_set2 = \<lparr> s2_cost = getOrNull m (t_sku item) \<rparr> \<rparr>"

definition combineData :: "trade_item list \<Rightarrow> digital_item list \<Rightarrow> product list" where
  "combineData tradeIdData digitalIdData =
     (let m = digitalIdMap Map.empty digitalIdData
      in filter (\<lambda>item. s1_cost (p_set1 item) \<noteq> None \<and> s2_cost (p_set2 item) \<noteq> None)
           (map (combineItem m) (dedupedTradeId {} tradeIdData)))"

section \<open>Pricing engine (browser)\<close>

text \<open>
  The page state the pricing functions read: \<open>exchangeRate\<close> (\<open>null\<close> until a rate is
  loaded), the selections and manual overrides by SKU, and \<open>roundingValue\<close>. The two
  objects are maps from SKU; a SKU that names a property of \<open>Object.prototype\<close> is
  outside the model.
\<close>

record state =
  exchangeRate :: "jsnum option"
  identitySelections :: "jsstring \<rightharpoonup> jsstring"
  identityOverrides :: "jsstring \<rightharpoonup> jsnum"
  roundingValue :: jsnum

text \<open>
  \<open>roundToNearest(value, nearest)\<close>; an absent \<open>nearest\<close> is \<open>None\<close>. The arguments are
  doubles, the quotient \<open>value / nearest\<close> is rounded to a double before \<open>Math.round\<close>
  sees it, and so is the product.
\<close>

definition roundToNearest :: "jsnum \<Rightarrow> jsnum option \<Rightarrow> jsnum" where
  "roundToNearest v nearest =
     (case nearest of
        None \<Rightarrow> v
      | Some n \<Rightarrow>
          if \<not> truthy (dbl n) \<or> dbl n = Fin 0 then v
          else dbl (js_mul (Math_round (dbl (js_div (dbl v) (dbl n)))) (dbl n)))"

definition gbpToEur :: "state \<Rightarrow> jsnum option \<Rightarrow> jsnum option" where
  "gbpToEur st gbpAmount =
     (case gbpAmount of
        None \<Rightarrow> None
      | Some a \<Rightarrow>
          (case exchangeRate st of
             None \<Rightarrow> None
           | Some r \<Rightarrow> if \<not> truthy r then None else Some (js_div a r)))"

text \<open>
  \<open>selection.match(/^\+(\d+)$/)\<close>: the digits after the plus sign when the whole string
  is a plus sign and at least one decimal digit, \<open>None\<close> otherwise.
\<close>

definition markupMatch :: "jsstring \<Rightarrow> jsstring option" where
  "markupMatch selection =
     (case selection of
        [] \<Rightarrow> None
      | c # ds \<Rightarrow> if c = 43 \<and> ds \<noteq> [] \<and> list_all isDigit ds then Some ds else None)"

text \<open>
  The last statement of \<open>calculateIdentityPrice\<close>:
  \<open>if (price !== null && roundingValue > 0) price = roundToNearest(price, roundingValue)\<close>.
\<close>

definition applyRounding :: "state \<Rightarrow> jsnum option \<Rightarrow> jsnum option" where
  "applyRounding st price =
     (case price of
        None \<Rightarrow> None
      | Some p \<Rightarrow>
          if js_gt (roundingValue st) (Fin 0)
          then Some (roundToNearest p (Some (roundingValue st)))
          else Some p)"

definition calculateIdentityPrice :: "state \<Rightarrow> product \<Rightarrow> jsstring \<Rightarrow> jsnum option" where
  "calculateIdentityPrice st pr selection =
     (if selection = [] then None
      else
        case s2_cost (p_set2 pr) of
          None \<Rightarrow> None
        | Some digitalIdGbp \<Rightarrow>
            if selection = ascii ''digitalId''
            then applyRounding st (gbpToEur st (Some digitalIdGbp))
            else
              (case markupMatch selection of
                 None \<Rightarrow> applyRounding st None
               | Some ds \<Rightarrow>
                   (case gbpToEur st (Some digitalIdGbp) of
                      None \<Rightarrow> None
                    | Some eurPrice \<Rightarrow>
                        applyRounding st
                          (Some (js_mul eurPrice
                                   (js_add (Fin 1) (js_div (parseInt ds) (Fin 100))))))))"

definition getIdentityPrice :: "state \<Rightarrow> jsstring \<Rightarrow> product \<Rightarrow> jsnum option" where
  "getIdentityPrice st sku pr =
     (case identityOverrides st sku of
        Some v \<Rightarrow> Some v
      | None \<Rightarrow>
          calculateIdentityPrice st pr
            (case identitySelections st sku of None \<Rightarrow> [] | Some s \<Rightarrow> s))"

definition updateIdentityFromInput :: "state \<Rightarrow> jsstring \<Rightarrow> jsstring \<Rightarrow> state" where
  "updateIdentityFromInput st sku v =
     (let numValue = parseFloat v
      in if \<not> isNaN numValue \<and> js_ge numValue (Fin 0)
         then st\<lparr>identityOverrides := (identityOverrides st)(sku \<mapsto> numValue)\<rparr>
         else if v = [] then st\<lparr>identityOverrides := (identityOverrides st)(sku := None)\<rparr>
         else st)"

section \<open>Batch propagator (worker): \<open>/api/zoho/batch-update\<close>\<close>

text \<open>
  Zoho Inventory is outside the worker. Every invocation of one of the three Zoho
  functions is recorded in a trace of calls, and what the service answers may depend on
  all the calls made before. An answer is \<open>Inl msg\<close> when the function's \<open>fetch\<close> or
  \<open>response.json()\<close> throws an exception with message \<open>msg\<close> (or the decoded value is
  not an object, so that reading a property of it throws), and \<open>Inr data\<close> with the decoded
  object otherwise.
\<close>

datatype call =
    TokenCall
  | SearchCall "jsstring option" jsstring jsstring
  | UpdateCall "jsstring option" jsstring jsstring "jsnum option" "jsnum option"

record token_data =
  td_error :: "jsstring option"
  td_access_token :: "jsstring option"

record zoho_item =
  item_id :: jsstring

record search_data =
  sd_code :: "jsnum option"
  sd_message :: "jsstring option"
  sd_items :: "zoho_item list option"

record update_data =
  ud_code :: "jsnum option"
  ud_message :: "jsstring option"
  ud_item :: "zoho_item option"

record service =
  tokenFetch :: "call list \<Rightarrow> jsstring + token_data"
  searchFetch :: "call list \<Rightarrow> jsstring option \<Rightarrow> jsstring \<Rightarrow> jsstring \<Rightarrow> jsstring + search_data"
  updateFetch :: "call list \<Rightarrow> jsstring option \<Rightarrow> jsstring \<Rightarrow> jsstring \<Rightarrow> jsnum option
                    \<Rightarrow> jsnum option \<Rightarrow> jsstring + update_data"

text \<open>\<open>message || fallback\<close> for an optional string.\<close>

definition orMessage :: "jsstring option \<Rightarrow> jsstring \<Rightarrow> jsstring" where
  "orMessage m fallback = (case m of None \<Rightarrow> fallback | Some s \<Rightarrow> if s = [] then fallback else s)"

text \<open>\<open>getZohoAccessToken(env)\<close>: throws when the answer carries a non-empty \<open>error\<close>.\<close>

definition getZohoAccessToken :: "service \<Rightarrow> call list \<Rightarrow> (jsstring + jsstring option) \<times> call list" where
  "getZohoAccessToken svc h =
     (case tokenFetch svc h of
        Inl e \<Rightarrow> (Inl e, h @ [TokenCall])
      | Inr data \<Rightarrow>
          (case td_error data of
             None \<Rightarrow> (Inr (td_access_token data), h @ [TokenCall])
           | Some e \<Rightarrow>
               if e \<noteq> [] then (Inl e, h @ [TokenCall])
               else (Inr (td_access_token data), h @ [TokenCall])))"

text \<open>
  \<open>zohoSearchItemBySku(accessToken, orgId, sku)\<close>: throws unless \<open>data.code\<close> is \<open>0\<close>;
  returns the first item, or \<open>null\<close> when there is none.
\<close>

definition zohoSearchItemBySku ::
    "service \<Rightarrow> jsstring option \<Rightarrow> jsstring \<Rightarrow> jsstring \<Rightarrow> call list
       \<Rightarrow> (jsstring + zoho_item option) \<times> call list" where
  "zohoSearchItemBySku svc accessToken orgId sku h =
     (case searchFetch svc h accessToken orgId sku of
        Inl e \<Rightarrow> (Inl e, h @ [SearchCall accessToken orgId sku])
      | Inr data \<Rightarrow>
          if sd_code data \<noteq> Some (Fin 0)
          then (Inl (orMessage (sd_message data) (ascii ''Failed to search item'')),
                h @ [SearchCall accessToken orgId sku])
          else (Inr (case sd_items data of
                       None \<Rightarrow> None
                     | Some [] \<Rightarrow> None
                     | Some (i # _) \<Rightarrow> Some i),
                h @ [SearchCall accessToken orgId sku]))"

text \<open>\<open>zohoUpdateItemPrices(accessToken, orgId, itemId, costPrice, sellingPrice)\<close>.\<close>

definition zohoUpdateItemPrices ::
    "service \<Rightarrow> jsstring option \<Rightarrow> jsstring \<Rightarrow> jsstring \<Rightarrow> jsnum option \<Rightarrow> jsnum option
       \<Rightarrow> call list \<Rightarrow> (jsstring + zoho_item option) \<times> call list" where
  "zohoUpdateItemPrices svc accessToken orgId itemId costPrice sellingPrice h =
     (case updateFetch svc h accessToken orgId itemId costPrice sellingPrice of
        Inl e \<Rightarrow> (Inl e, h @ [UpdateCall accessToken orgId itemId costPrice sellingPrice])
      | Inr data \<Rightarrow>
          if ud_code data \<noteq> Some (Fin 0)
          then (Inl (orMessage (ud_message data) (ascii ''Failed to update item'')),
                h @ [UpdateCall accessToken orgId itemId costPrice sellingPrice])
          else (Inr (ud_item data),
                h @ [UpdateCall accessToken orgId itemId costPrice sellingPrice]))"

text \<open>The items of the request and the entries of \<open>results\<close>.\<close>

record batch_item =
  i_sku :: jsstring
  i_costPrice :: "jsnum option"
  i_sellingPrice :: "jsnum option"

record batch_result =
  r_sku :: jsstring
  r_success :: bool
  r_error :: "jsstring option"

datatype payload = ErrorBody jsstring | ResultsBody "batch_result list"

record response =
  status :: nat
  body :: payload

text \<open>
  The body of the \<open>for\<close> loop: the \<open>try\<close> block with its \<open>catch\<close>, which turns an
  exception of the search or of the update into a failed result.
\<close>

definition batchUpdateItem ::
    "service \<Rightarrow> jsstring option \<Rightarrow> jsstring \<Rightarrow> batch_item \<Rightarrow> call list \<Rightarrow> batch_result \<times> call list" where
  "batchUpdateItem svc accessToken orgId item h =
     (case zohoSearchItemBySku svc accessToken orgId (i_sku item) h of
        (Inl e, h1) \<Rightarrow> (\<lparr> r_sku = i_sku item, r_success = False, r_error = Some e \<rparr>, h1)
      | (Inr None, h1) \<Rightarrow>
          (\<lparr> r_sku = i_sku item, r_success = False, r_error = Some (ascii ''Item not found'') \<rparr>, h1)
      | (Inr (Some zohoItem), h1) \<Rightarrow>
          (case zohoUpdateItemPrices svc accessToken orgId (item_id zohoItem)
                  (i_costPrice item) (i_sellingPrice item) h1 of
             (Inl e, h2) \<Rightarrow> (\<lparr> r_sku = i_sku item, r_success = False, r_error = Some e \<rparr>, h2)
           | (Inr _, h2) \<Rightarrow> (\<lparr> r_sku = i_sku item, r_success = True, r_error = None \<rparr>, h2)))"

text \<open>The loop \<open>for (const item of items)\<close>, pushing one entry to \<open>results\<close> per item.\<close>

fun batchUpdateLoop ::
    "service \<Rightarrow> jsstring option \<Rightarrow> jsstring \<Rightarrow> batch_item list \<Rightarrow> batch_result list \<Rightarrow> call list
       \<Rightarrow> batch_result list \<times> call list" where
  "batchUpdateLoop svc accessToken orgId [] results h = (results, h)"
| "batchUpdateLoop svc accessToken orgId (item # items) results h =
     (case batchUpdateItem svc accessToken orgId item h of
        (r, h') \<Rightarrow> batchUpdateLoop svc accessToken orgId items (results @ [r]) h')"

text \<open>
  The handler. The request is \<open>Inl msg\<close> when reading the JSON body throws, and otherwise
  the \<open>items\<close> of the body: \<open>None\<close> when it is missing or not an array.
\<close>

definition batchUpdate ::
    "service \<Rightarrow> jsstring \<Rightarrow> jsstring + batch_item list option \<Rightarrow> call list \<Rightarrow> response \<times> call list" where
  "batchUpdate svc orgId request h =
     (case request of
        Inl e \<Rightarrow> (\<lparr> status = 500, body = ErrorBody e \<rparr>, h)
      | Inr None \<Rightarrow> (\<lparr> status = 400, body = ErrorBody (ascii ''Items array is required'') \<rparr>, h)
      | Inr (Some items) \<Rightarrow>
          if items = []
          then (\<lparr> status = 400, body = ErrorBody (ascii ''Items array is required'') \<rparr>, h)
          else
            (case getZohoAccessToken svc h of
               (Inl e, h1) \<Rightarrow> (\<lparr> status = 500, body = ErrorBody e \<rparr>, h1)
             | (Inr accessToken, h1) \<Rightarrow>
                 (case batchUpdateLoop svc accessToken orgId items [] h1 of
                    (results, h2) \<Rightarrow> (\<lparr> status = 200, body = ResultsBody results \<rparr>, h2))))"

section \<open>Definitions that follow the specification\<close>

text \<open>
  Round half away from zero, the rounding the specification names for the rounding
  step.
\<close>

definition roundHalfAway :: "rat \<Rightarrow> int" where
  "roundHalfAway x = (if 0 \<le> x then \<lfloor>x + 1 / 2\<rfloor> else - \<lfloor>- x + 1 / 2\<rfloor>)"




text \<open>
  ``Iterate in input order, keep first occurrence per key, discard later duplicates'':
  the head is kept and every later record with its key is discarded.
\<close>

function firstOccurrences :: "trade_item list \<Rightarrow> trade_item list" where
  "firstOccurrences [] = []"
| "firstOccurrences (x # xs) = x # firstOccurrences (filter (\<lambda>y. t_sku y \<noteq> t_sku x) xs)"
  by pat_completeness auto
termination
  by (relation "measure length") (auto simp: less_Suc_eq_le)

text \<open>The first secondary record observed for a key.\<close>

definition firstDigital :: "digital_item list \<Rightarrow> jsstring \<Rightarrow> digital_item option" where
  "firstDigital D k = find (\<lambda>d. d_sku d = k) D"

text \<open>
  The merged record of a primary record: its own fields, and the cost of the first
  secondary record with its key.
\<close>

definition mergedRecord :: "digital_item list \<Rightarrow> trade_item \<Rightarrow> product" where
  "mergedRecord D t =
     \<lparr> p_sku = t_sku t, p_productId = t_productId t,
       p_set1 = \<lparr> s1_name = t_name t, s1_cost = t_price t, s1_stock = t_stock t \<rparr>,
       p_set2 = \<lparr> s2_cost = (case firstDigital D (t_sku t) of
                                None \<Rightarrow> None
                              | Some d \<Rightarrow> d_price d) \<rparr> \<rparr>"

text \<open>
  ``Both a primary cost and a matching secondary cost are present (non-null)'', as the
  specification states the condition of the join.
\<close>

definition bothCostsPresent :: "digital_item list \<Rightarrow> trade_item \<Rightarrow> bool" where
  "bothCostsPresent D t =
     (t_price t \<noteq> None \<and>
      (case firstDigital D (t_sku t) of None \<Rightarrow> False | Some d \<Rightarrow> d_price d \<noteq> None))"

text \<open>
  The condition of the join as \<open>combineData\<close> tests it, through
  \<open>digitalIdMap.get(sku) || null\<close>: the secondary cost is non-null and truthy. On the
  lists the parsers produce the two conditions are the same, since a parsed cost is never
  \<open>0\<close> or \<open>NaN\<close>.
\<close>

definition bothCostsUsable :: "digital_item list \<Rightarrow> trade_item \<Rightarrow> bool" where
  "bothCostsUsable D t =
     (t_price t \<noteq> None \<and>
      (case firstDigital D (t_sku t) of
         None \<Rightarrow> False
       | Some d \<Rightarrow> (case d_price d of None \<Rightarrow> False | Some c \<Rightarrow> truthy c)))"

text \<open>The policy \<open>keep(row) = key != "" AND cost != -1\<close> of the specification.\<close>

definition keepRow :: "jsstring \<Rightarrow> jsnum \<Rightarrow> bool" where
  "keepRow key cost = (key \<noteq> [] \<and> cost \<noteq> Fin (- 1))"

text \<open>
  The record, the key and the parsed cost of a data row of the Trade-Id sheet, with the
  columns located in the header row as \<open>parseTradeIdSheet\<close> locates them.
\<close>

definition tradeRecord :: "(jsstring \<Rightarrow> jsstring) \<Rightarrow> jsstring list \<Rightarrow> jsstring list \<Rightarrow> trade_item" where
  "tradeRecord lower headers row =
     tradeRow (findIndex (\<lambda>h. includesStr (lower h) (ascii ''product id'')) headers)
              (findIndex (\<lambda>h. includesStr (lower h) (ascii ''product name'')) headers)
              (findIndex (\<lambda>h. lower h = ascii ''price'') headers)
              (findIndex (\<lambda>h. lower h = ascii ''sku'') headers)
              (findIndex (\<lambda>h. lower h = ascii ''stock'') headers) row"

definition tradeKey :: "(jsstring \<Rightarrow> jsstring) \<Rightarrow> jsstring list \<Rightarrow> jsstring list \<Rightarrow> jsstring" where
  "tradeKey lower headers row =
     orEmpty (cell row (findIndex (\<lambda>h. lower h = ascii ''sku'') headers))"

definition tradeCost :: "(jsstring \<Rightarrow> jsstring) \<Rightarrow> jsstring list \<Rightarrow> jsstring list \<Rightarrow> jsnum" where
  "tradeCost lower headers row =
     parseFloat (ToString (cell row (findIndex (\<lambda>h. lower h = ascii ''price'') headers)))"

text \<open>The same for a data row of the Digital Id sheet.\<close>

definition digitalRecord ::
    "(jsstring \<Rightarrow> jsstring) \<Rightarrow> bool \<Rightarrow> jsstring list \<Rightarrow> jsstring list \<Rightarrow> digital_item" where
  "digitalRecord lower includeDescription headers row =
     digitalRow includeDescription
       (findIndex (\<lambda>h. lower h = ascii ''price'') headers)
       (findIndex (\<lambda>h. lower h = ascii ''sku'') headers)
       (findIndex (\<lambda>h. lower h = ascii ''description'') headers)
       (findIndex (\<lambda>h. lower h = ascii ''name'') headers) row"

definition digitalKey :: "(jsstring \<Rightarrow> jsstring) \<Rightarrow> jsstring list \<Rightarrow> jsstring list \<Rightarrow> jsstring" where
  "digitalKey lower headers row =
     orEmpty (cell row (findIndex (\<lambda>h. lower h = ascii ''sku'') headers))"

definition digitalCost :: "(jsstring \<Rightarrow> jsstring) \<Rightarrow> jsstring list \<Rightarrow> jsstring list \<Rightarrow> jsnum" where
  "digitalCost lower headers row =
     parseFloat (trim (stripCurrency
       (orEmpty (cell row (findIndex (\<lambda>h. lower h = ascii ''price'') headers)))))"

text \<open>
  What a trace says was attempted: the SKUs searched and the item ids updated, in the
  order of the calls.
\<close>

fun searchedSkus :: "call list \<Rightarrow> jsstring list" where
  "searchedSkus [] = []"
| "searchedSkus (SearchCall t org sku # cs) = sku # searchedSkus cs"
| "searchedSkus (c # cs) = searchedSkus cs"

fun updatedIds :: "call list \<Rightarrow> jsstring list" where
  "updatedIds [] = []"
| "updatedIds (UpdateCall t org itemId c s # cs) = itemId # updatedIds cs"
| "updatedIds (c # cs) = updatedIds cs"

section \<open>Concrete inputs\<close>

text \<open>\<open>toLowerCase\<close> restricted to ASCII letters, for sheets whose headers are ASCII.\<close>

definition asciiLower :: "jsstring \<Rightarrow> jsstring" where
  "asciiLower s = map (\<lambda>c. if 65 \<le> c \<and> c \<le> 90 then c + 32 else c) s"

text \<open>
  A Trade-Id sheet with a priced row, a row with the sentinel \<open>-1\<close>, a row whose price
  does not parse, a row without SKU and a row priced \<open>0\<close>; a Digital Id sheet whose
  first price carries a pound sign (code unit 163).
\<close>

definition tradeHeader :: "jsstring list" where
  "tradeHeader = [ascii ''SKU'', ascii ''Price'']"

definition tradeSheet :: "jsstring list list" where
  "tradeSheet =
     [tradeHeader,
      [ascii ''A'', ascii ''10''],
      [ascii ''B'', ascii ''-1''],
      [ascii ''C'', ascii ''n/a''],
      [[], ascii ''7''],
      [ascii ''E'', ascii ''0'']]"

definition digitalHeader :: "jsstring list" where
  "digitalHeader = [ascii ''sku'', ascii ''price'']"

definition digitalSheet :: "jsstring list list" where
  "digitalSheet =
     [digitalHeader,
      [ascii ''A'', 163 # ascii ''12.00''],
      [ascii ''C'', ascii ''9''],
      [ascii ''E'', ascii ''0.00'']]"

definition tradeItem :: "string \<Rightarrow> jsnum option \<Rightarrow> trade_item" where
  "tradeItem k c =
     \<lparr> t_productId = [], t_name = [], t_price = c, t_sku = ascii k, t_stock = None \<rparr>"

definition digitalItem :: "string \<Rightarrow> jsnum option \<Rightarrow> digital_item" where
  "digitalItem k c = \<lparr> d_sku = ascii k, d_price = c, d_name = None, d_description = None \<rparr>"

text \<open>The primary list of scenario 4: the key \<open>A\<close> twice, with costs 10 and 99.\<close>

definition dupTrade :: "trade_item list" where
  "dupTrade = [tradeItem ''A'' (Some (Fin 10)), tradeItem ''A'' (Some (Fin 99))]"

text \<open>
  The page state and the product of scenarios 1 and 2: rate 1.2, no rounding, primary
  cost 10 and secondary cost 12.
\<close>

definition scenarioState :: state where
  "scenarioState =
     \<lparr> exchangeRate = Some (Fin (12 / 10)), identitySelections = Map.empty,
       identityOverrides = Map.empty, roundingValue = Fin 0 \<rparr>"

definition scenarioProduct :: product where
  "scenarioProduct =
     \<lparr> p_sku = ascii ''A'', p_productId = [],
       p_set1 = \<lparr> s1_name = [], s1_cost = Some (Fin 10), s1_stock = Some (Fin 5) \<rparr>,
       p_set2 = \<lparr> s2_cost = Some (Fin 12) \<rparr> \<rparr>"

text \<open>
  The service of scenario 5: the token is granted, the search for SKU \<open>B\<close> throws, every
  other search finds an item and every update succeeds. \<open>failingTokenService\<close> answers
  the token request with an error instead. \<open>tokenlessService\<close> answers the token request
  with an object that has neither \<open>error\<close> nor \<open>access_token\<close>, and rejects with code 57
  every search that is made without a token.
\<close>

definition scenarioService :: service where
  "scenarioService =
     \<lparr> tokenFetch = (\<lambda>h. Inr \<lparr> td_error = None, td_access_token = Some (ascii ''token'') \<rparr>),
       searchFetch = (\<lambda>h t org sku.
          if sku = ascii ''B'' then Inl (ascii ''lookup failed'')
          else Inr \<lparr> sd_code = Some (Fin 0), sd_message = None,
                     sd_items = Some [\<lparr> item_id = sku \<rparr>] \<rparr>),
       updateFetch = (\<lambda>h t org itemId c s.
          Inr \<lparr> ud_code = Some (Fin 0), ud_message = None,
                ud_item = Some \<lparr> item_id = itemId \<rparr> \<rparr>) \<rparr>"



definition scenarioItems :: "batch_item list" where
  "scenarioItems =
     [\<lparr> i_sku = ascii ''A'', i_costPrice = Some (Fin 8), i_sellingPrice = Some (Fin 10) \<rparr>,
      \<lparr> i_sku = ascii ''B'', i_costPrice = Some (Fin 8), i_sellingPrice = Some (Fin 10) \<rparr>,
      \<lparr> i_sku = ascii ''C'', i_costPrice = Some (Fin 8), i_sellingPrice = Some (Fin 10) \<rparr>]"

section \<open>Evaluation of the host functions on literals\<close>

lemmas parseFloat_eval = parseFloat_def trimStart_def isWhiteSpace_def signedDecimal_def
  unsignedDecimal_def isDigit_def decVal_def scale10_def exponentPart_def signedDigits_def
  inf_of_def

lemmas parseInt_eval = parseInt_def signedInt_def unsignedInt_def isHexDigit_def hexVal_def
  hexDigitVal_def

lemma ascii_eq_Nil: "(ascii s = []) = (s = [])"
  by (simp add: ascii_def)








lemma parseFloat_zero: "parseFloat (ascii ''0'') = Fin 0"
  by (simp add: parseFloat_eval ascii_def)

section \<open>Pricing engine\<close>

subsection \<open>Rounding\<close>

text \<open>Evaluation of \<open>toDouble\<close> on literals.\<close>

lemma floor_rat_numeral: "\<lfloor>(numeral a :: rat) / numeral b\<rfloor> = numeral a div numeral b"
  by (metis floor_divide_of_int_eq of_int_numeral)

lemma ceiling_rat_numeral:
  "\<lceil>(numeral a :: rat) / numeral b\<rceil> = - ((- numeral a) div numeral b)"
  by (metis ceiling_def floor_divide_of_int_eq of_int_minus of_int_numeral minus_divide_left)

lemmas toDouble_eval = toDouble_def floorLog2_def pow2_def roundHalfEven_def ilog2.simps
  floor_rat_numeral ceiling_rat_numeral Let_def

lemma toDouble_literals:
  "toDouble (1 / 2) = Fin (1 / 2)"
  "toDouble (5 / 4) = Fin (5 / 4)"
  "toDouble (- 5 / 4) = Fin (- 5 / 4)"
  "toDouble (5 / 4 / (1 / 2)) = Fin (5 / 2)"
  "toDouble (- 5 / 4 / (1 / 2)) = Fin (- 5 / 2)"
  by (simp_all add: toDouble_eval)

text \<open>The doubles of 10.23, 10.26, 10.35 and 0.1.\<close>

lemma toDouble_decimals:
  "toDouble (1023 / 100) = Fin (2879489011750011 / 281474976710656)"
  "toDouble (1026 / 100) = Fin (5775866522102661 / 562949953421312)"
  "toDouble (207 / 20) = Fin (5826532017910579 / 562949953421312)"
  "toDouble (1 / 10) = Fin (3602879701896397 / 36028797018963968)"
  by (simp_all add: toDouble_eval)

text \<open>
  The quotients of those doubles, rounded to doubles. The quotient of 10.35 and 0.1 is
  the double below 103.5.
\<close>

lemma toDouble_quotients:
  "toDouble (2879489011750011 / 281474976710656 / (1 / 2))
     = Fin (2879489011750011 / 140737488355328)"
  "toDouble (5775866522102661 / 562949953421312 / (1 / 2))
     = Fin (5775866522102661 / 281474976710656)"
  "toDouble (5826532017910579 / 562949953421312 / (3602879701896397 / 36028797018963968))
     = Fin (7283165022388223 / 70368744177664)"
  by (simp_all add: toDouble_eval)

text \<open>The products of the rounded quotients and the increments, rounded to doubles.\<close>

lemma toDouble_products:
  "toDouble (of_int 3 * (1 / 2)) = Fin (3 / 2)"
  "toDouble (of_int (- 2) * (1 / 2)) = Fin (- 1)"
  "toDouble (of_int 20 * (1 / 2)) = Fin 10"
  "toDouble (of_int 21 * (1 / 2)) = Fin (21 / 2)"
  "toDouble (of_int 103 * (3602879701896397 / 36028797018963968)) = toDouble (103 / 10)"
  by (simp_all add: toDouble_eval)

text \<open>The double nearest to a number that is not negative is not negative.\<close>

lemma roundHalfEven_nonneg: "0 \<le> m \<Longrightarrow> 0 \<le> roundHalfEven m"
  by (auto simp: roundHalfEven_def)

lemma pow2_pos: "0 < pow2 e"
  by (simp add: pow2_def)

lemma toDouble_nonneg:
  assumes "0 \<le> x" and "toDouble x = Fin q"
  shows "0 \<le> q"
proof (cases "x = 0")
  case True
  with assms(2) show ?thesis by (simp add: toDouble_def)
next
  case False
  define ulp where "ulp = pow2 (max (floorLog2 \<bar>x\<bar>) (- 1022) - 52)"
  have u: "0 < ulp" unfolding ulp_def by (rule pow2_pos)
  have "0 \<le> \<bar>x\<bar> / ulp" using u by simp
  then have "0 \<le> roundHalfEven (\<bar>x\<bar> / ulp)" by (rule roundHalfEven_nonneg)
  then have r: "0 \<le> of_int (roundHalfEven (\<bar>x\<bar> / ulp)) * ulp" using u by simp
  from assms False have "0 < x" by simp
  with assms(2) False have "q = of_int (roundHalfEven (\<bar>x\<bar> / ulp)) * ulp"
    by (simp add: toDouble_def Let_def ulp_def split: if_splits)
  with r show ?thesis by simp
qed

text \<open>The rounding step on finite numbers whose quotient is finite.\<close>

lemma roundToNearest_dbl:
  assumes "toDouble v = Fin v'" and "toDouble n = Fin n'" and "0 < n'"
    and "toDouble (v' / n') = Fin q"
  shows "roundToNearest (Fin v) (Some (Fin n)) = toDouble (of_int \<lfloor>q + 1 / 2\<rfloor> * n')"
  using assms by (simp add: roundToNearest_def dbl_def)

lemma floor_neg_tie_free:
  fixes y :: rat
  assumes "y \<notin> \<int>"
  shows "- \<lfloor>- y + 1\<rfloor> = \<lfloor>y\<rfloor>"
proof -
  have "\<lceil>y\<rceil> = \<lfloor>y\<rfloor> + 1"
    using assms by (metis Ints_of_int ceiling_altdef)
  moreover have "\<lfloor>- y + 1\<rfloor> = - \<lceil>y\<rceil> + 1"
    unfolding ceiling_def using floor_add_int [of "- y" 1] by simp
  ultimately show ?thesis by simp
qed

text \<open>Away from negative ties, rounding half away from zero is \<open>\<lfloor>x + 1/2\<rfloor>\<close>.\<close>

lemma roundHalfAway_eq:
  assumes "0 \<le> x \<or> x + 1 / 2 \<notin> \<int>"
  shows "roundHalfAway x = \<lfloor>x + 1 / 2\<rfloor>"
proof (cases "0 \<le> x")
  case True
  then show ?thesis by (simp add: roundHalfAway_def)
next
  case False
  with assms have "x + 1 / 2 \<notin> \<int>" by simp
  then have "- \<lfloor>- (x + 1 / 2) + 1\<rfloor> = \<lfloor>x + 1 / 2\<rfloor>"
    by (rule floor_neg_tie_free)
  moreover have "- (x + 1 / 2) + 1 = - x + 1 / 2" by simp
  ultimately show ?thesis using False by (simp add: roundHalfAway_def)
qed

lemma roundToNearest_scenarios:
  "roundToNearest (Fin (1023 / 100)) (Some (Fin (1 / 2))) = Fin 10"
  "roundToNearest (Fin (1026 / 100)) (Some (Fin (1 / 2))) = Fin (21 / 2)"
  "roundToNearest (Fin (207 / 20)) (Some (Fin (1 / 10))) = toDouble (103 / 10)"
proof -
  have half: "(0::rat) < 1 / 2" by simp
  have tenth: "(0::rat) < 3602879701896397 / 36028797018963968" by simp
  have q1: "\<lfloor>(2879489011750011 / 140737488355328 :: rat) + 1 / 2\<rfloor> = 20"
    by (simp add: floor_eq_iff)
  have q2: "\<lfloor>(5775866522102661 / 281474976710656 :: rat) + 1 / 2\<rfloor> = 21"
    by (simp add: floor_eq_iff)
  have q3: "\<lfloor>(7283165022388223 / 70368744177664 :: rat) + 1 / 2\<rfloor> = 103"
    by (simp add: floor_eq_iff)
  show "roundToNearest (Fin (1023 / 100)) (Some (Fin (1 / 2))) = Fin 10"
    by (simp only: roundToNearest_dbl
          [OF toDouble_decimals(1) toDouble_literals(1) half toDouble_quotients(1)]
          q1 toDouble_products)
  show "roundToNearest (Fin (1026 / 100)) (Some (Fin (1 / 2))) = Fin (21 / 2)"
    by (simp only: roundToNearest_dbl
          [OF toDouble_decimals(2) toDouble_literals(1) half toDouble_quotients(2)]
          q2 toDouble_products)
  show "roundToNearest (Fin (207 / 20)) (Some (Fin (1 / 10))) = toDouble (103 / 10)"
    by (simp only: roundToNearest_dbl
          [OF toDouble_decimals(3) toDouble_decimals(4) tenth toDouble_quotients(3)]
          q3 toDouble_products)
qed

text \<open>
  Claim C3, as the code has it. Let the price and the increment be the doubles \<open>v'\<close> and
  \<open>n' > 0\<close>, and let \<open>q\<close> be their quotient as the division returns it, a double. The
  rounding step returns \<open>Math.round(q) \<times> n'\<close>, the product rounded to a double, where
  \<open>Math.round\<close> sends a tie to the larger integer (\<open>\<lfloor>q + 1/2\<rfloor>\<close>). This is rounding \<open>q\<close>
  half away from zero whenever the price is not negative, or \<open>q\<close> is not a tie. An increment
  that is absent, \<open>0\<close> or \<open>NaN\<close> leaves the price unchanged. With increment 0.50, 10.23
  becomes 10.00 and 10.26 becomes 10.50. Since \<open>q\<close> is a double, a price that is a tie in
  decimal notation need not be one: 10.35 at increment 0.10 has \<open>q\<close> just below 103.5 and
  becomes 10.3.
\<close>

theorem roundToNearest_half_up:
  "(toDouble v = Fin v' \<and> toDouble n = Fin n' \<and> 0 < n' \<and> toDouble (v' / n') = Fin q \<longrightarrow>
      roundToNearest (Fin v) (Some (Fin n)) = toDouble (of_int \<lfloor>q + 1 / 2\<rfloor> * n')
      \<and> (0 \<le> v \<or> 0 \<le> q \<or> q + 1 / 2 \<notin> \<int> \<longrightarrow>
           roundToNearest (Fin v) (Some (Fin n)) = toDouble (of_int (roundHalfAway q) * n')))
   \<and> roundToNearest x None = x
   \<and> roundToNearest x (Some (Fin 0)) = x
   \<and> roundToNearest x (Some NaN) = x
   \<and> roundToNearest (Fin (1023 / 100)) (Some (Fin (1 / 2))) = Fin 10
   \<and> roundToNearest (Fin (1026 / 100)) (Some (Fin (1 / 2))) = Fin (21 / 2)
   \<and> roundToNearest (Fin (207 / 20)) (Some (Fin (1 / 10))) = toDouble (103 / 10)"
proof (intro conjI impI)
  assume a: "toDouble v = Fin v' \<and> toDouble n = Fin n' \<and> 0 < n' \<and> toDouble (v' / n') = Fin q"
  then show r: "roundToNearest (Fin v) (Some (Fin n)) = toDouble (of_int \<lfloor>q + 1 / 2\<rfloor> * n')"
    by (simp add: roundToNearest_dbl)
  assume b: "0 \<le> v \<or> 0 \<le> q \<or> q + 1 / 2 \<notin> \<int>"
  have "0 \<le> q" if "0 \<le> v"
  proof -
    from that a have "0 \<le> v'" using toDouble_nonneg by blast
    then have "0 \<le> v' / n'" using a by simp
    then show ?thesis using a toDouble_nonneg by blast
  qed
  with b have "0 \<le> q \<or> q + 1 / 2 \<notin> \<int>" by blast
  then have "roundHalfAway q = \<lfloor>q + 1 / 2\<rfloor>" by (rule roundHalfAway_eq)
  then show "roundToNearest (Fin v) (Some (Fin n)) = toDouble (of_int (roundHalfAway q) * n')"
    using r by simp
next
  show "roundToNearest x None = x" by (simp add: roundToNearest_def)
  show "roundToNearest x (Some (Fin 0)) = x" by (simp add: roundToNearest_def dbl_def toDouble_def)
  show "roundToNearest x (Some NaN) = x" by (simp add: roundToNearest_def dbl_def)
  show "roundToNearest (Fin (1023 / 100)) (Some (Fin (1 / 2))) = Fin 10"
    by (rule roundToNearest_scenarios)
  show "roundToNearest (Fin (1026 / 100)) (Some (Fin (1 / 2))) = Fin (21 / 2)"
    by (rule roundToNearest_scenarios)
  show "roundToNearest (Fin (207 / 20)) (Some (Fin (1 / 10))) = toDouble (103 / 10)"
    by (rule roundToNearest_scenarios)
qed

text \<open>The theorem at price 1.25 and increment 0.50: a tie, rounded up to 1.50.\<close>

theorem roundToNearest_half_up_witness:
  "toDouble (5 / 4) = Fin (5 / 4) \<and> toDouble (1 / 2) = Fin (1 / 2) \<and> (0::rat) < 1 / 2
   \<and> toDouble (5 / 4 / (1 / 2)) = Fin (5 / 2)
   \<and> roundToNearest (Fin (5 / 4)) (Some (Fin (1 / 2))) = Fin (3 / 2)
   \<and> roundHalfAway (5 / 2) = 3"
proof -
  have half: "(0::rat) < 1 / 2" by simp
  have f: "\<lfloor>(5 / 2 :: rat) + 1 / 2\<rfloor> = 3" by simp
  have h: "roundHalfAway (5 / 2) = 3" by (simp add: roundHalfAway_def)
  have "roundToNearest (Fin (5 / 4)) (Some (Fin (1 / 2)))
          = toDouble (of_int \<lfloor>(5 / 2 :: rat) + 1 / 2\<rfloor> * (1 / 2))"
    using roundToNearest_half_up [of "5 / 4" "5 / 4" "1 / 2" "1 / 2" "5 / 2"]
      toDouble_literals(1,2,4) half
    by blast
  then have r: "roundToNearest (Fin (5 / 4)) (Some (Fin (1 / 2))) = Fin (3 / 2)"
    by (simp only: f toDouble_products)
  show ?thesis
    by (intro conjI) (rule toDouble_literals(2) toDouble_literals(1) half toDouble_literals(4) r h)+
qed

text \<open>
  Claim C3 as stated fails at a negative tie. For price -1.25 and increment 0.50, all
  doubles, the quotient is -2.5; \<open>Math.round\<close> gives -2 and the result is -1.00, while
  rounding half away from zero gives -3 and -1.50.
\<close>

theorem roundToNearest_negative_tie_counterexample:
  "roundToNearest (Fin (- 5 / 4)) (Some (Fin (1 / 2))) = Fin (- 1)
   \<and> Fin (of_int (roundHalfAway ((- 5 / 4) / (1 / 2))) * (1 / 2)) = Fin (- 3 / 2)
   \<and> roundToNearest (Fin (- 5 / 4)) (Some (Fin (1 / 2)))
       \<noteq> Fin (of_int (roundHalfAway ((- 5 / 4) / (1 / 2))) * (1 / 2))"
proof -
  have half: "(0::rat) < 1 / 2" by simp
  have f: "\<lfloor>(- 5 / 2 :: rat) + 1 / 2\<rfloor> = - 2" by simp
  have r: "roundToNearest (Fin (- 5 / 4)) (Some (Fin (1 / 2))) = Fin (- 1)"
    by (simp only: roundToNearest_dbl
          [OF toDouble_literals(3) toDouble_literals(1) half toDouble_literals(5)]
          f toDouble_products)
  have h: "Fin (of_int (roundHalfAway ((- 5 / 4) / (1 / 2))) * (1 / 2)) = Fin (- 3 / 2)"
    by (simp add: roundHalfAway_def)
  show ?thesis unfolding r h by simp
qed

subsection \<open>Conversion and the pricing rules\<close>







text \<open>
  Claim C5. When the rate is \<open>null\<close> or exactly 0, the conversion returns \<open>null\<close> for every
  amount, and the price is \<open>null\<close> for every product and every selection: no division
  is made, so there is neither an exception nor an infinity.
\<close>

theorem no_rate_no_price:
  assumes "exchangeRate st = None \<or> exchangeRate st = Some (Fin 0)"
  shows "gbpToEur st a = None \<and> calculateIdentityPrice st pr sel = None"
proof -
  have g: "gbpToEur st b = None" for b
    using assms by (auto simp: gbpToEur_def split: option.splits)
  have "calculateIdentityPrice st pr sel = None"
    by (simp add: calculateIdentityPrice_def g applyRounding_def split: option.splits)
  with g show ?thesis by simp
qed

theorem no_rate_no_price_witness:
  "gbpToEur (scenarioState\<lparr>exchangeRate := Some (Fin 0)\<rparr>) (Some (Fin 12)) = None
   \<and> calculateIdentityPrice (scenarioState\<lparr>exchangeRate := Some (Fin 0)\<rparr>) scenarioProduct
       (ascii ''+20'') = None
   \<and> calculateIdentityPrice (scenarioState\<lparr>exchangeRate := None\<rparr>) scenarioProduct
       (ascii ''digitalId'') = None"
  using
    no_rate_no_price [of "scenarioState\<lparr>exchangeRate := Some (Fin 0)\<rparr>" "Some (Fin 12)"
      scenarioProduct "ascii ''+20''"]
    no_rate_no_price [of "scenarioState\<lparr>exchangeRate := None\<rparr>" "Some (Fin 12)"
      scenarioProduct "ascii ''digitalId''"]
  by simp

subsection \<open>Manual overrides\<close>

text \<open>
  Claim C9. An override that is set for a SKU is the price reported for it, whatever
  its value; the computed price is reported only when the SKU has no override. Typing
  \<open>0\<close> into the price field sets the override 0, which is then reported, and only the
  empty input removes the override.
\<close>

theorem getIdentityPrice_override:
  "(identityOverrides st sku = Some v \<longrightarrow> getIdentityPrice st sku pr = Some v)
   \<and> (identityOverrides st sku = None \<longrightarrow>
        getIdentityPrice st sku pr
          = calculateIdentityPrice st pr
              (case identitySelections st sku of None \<Rightarrow> [] | Some s \<Rightarrow> s))
   \<and> identityOverrides (updateIdentityFromInput st sku (ascii ''0'')) sku = Some (Fin 0)
   \<and> getIdentityPrice (updateIdentityFromInput st sku (ascii ''0'')) sku pr = Some (Fin 0)
   \<and> identityOverrides (updateIdentityFromInput st sku []) sku = None"
  by (simp add: getIdentityPrice_def updateIdentityFromInput_def parseFloat_zero)
     (simp add: parseFloat_def trimStart_def)

text \<open>
  With the selection \<open>digitalId\<close> the computed price of the scenario product is 10; after
  the override 0 is typed in, the reported price is 0.
\<close>

theorem getIdentityPrice_override_witness:
  "identityOverrides
      (updateIdentityFromInput
         (scenarioState\<lparr>identitySelections := [ascii ''A'' \<mapsto> ascii ''digitalId'']\<rparr>)
         (ascii ''A'') (ascii ''0'')) (ascii ''A'') = Some (Fin 0)
   \<and> getIdentityPrice
      (updateIdentityFromInput
         (scenarioState\<lparr>identitySelections := [ascii ''A'' \<mapsto> ascii ''digitalId'']\<rparr>)
         (ascii ''A'') (ascii ''0'')) (ascii ''A'') scenarioProduct = Some (Fin 0)
   \<and> getIdentityPrice
      (scenarioState\<lparr>identitySelections := [ascii ''A'' \<mapsto> ascii ''digitalId'']\<rparr>)
      (ascii ''A'') scenarioProduct = Some (Fin 10)"
proof -
  let ?st = "scenarioState\<lparr>identitySelections := [ascii ''A'' \<mapsto> ascii ''digitalId'']\<rparr>"
  let ?st' = "updateIdentityFromInput ?st (ascii ''A'') (ascii ''0'')"
  note o = getIdentityPrice_override [of ?st "ascii ''A''" "Fin 0" scenarioProduct]
  note p = getIdentityPrice_override [of ?st' "ascii ''A''" "Fin 0" scenarioProduct]
  have set0: "identityOverrides ?st' (ascii ''A'') = Some (Fin 0)"
    using o by simp
  have got0: "getIdentityPrice ?st' (ascii ''A'') scenarioProduct = Some (Fin 0)"
    using p set0 by simp
  have none: "identityOverrides ?st (ascii ''A'') = None"
    by (simp add: scenarioState_def)
  have "calculateIdentityPrice ?st scenarioProduct (ascii ''digitalId'') = Some (Fin 10)"
    by (simp add: calculateIdentityPrice_def gbpToEur_def applyRounding_def scenarioState_def
          scenarioProduct_def ascii_def)
  then have "getIdentityPrice ?st (ascii ''A'') scenarioProduct = Some (Fin 10)"
    using o none by simp
  with set0 got0 show ?thesis by simp
qed

section \<open>Reconciler\<close>

subsection \<open>The map and the deduplication keep first occurrences\<close>

lemma digitalIdMap_keep: "m k \<noteq> None \<Longrightarrow> digitalIdMap m D k = m k"
  by (induction D arbitrary: m) auto

lemma digitalIdMap_find:
  "m k = None \<Longrightarrow> digitalIdMap m D k = map_option d_price (firstDigital D k)"
proof (induction D arbitrary: m)
  case Nil
  then show ?case by (simp add: firstDigital_def)
next
  case (Cons d D)
  show ?case
  proof (cases "d_sku d = k")
    case True
    then show ?thesis using Cons.prems by (simp add: firstDigital_def digitalIdMap_keep)
  next
    case False
    then show ?thesis using Cons by (auto simp: firstDigital_def)
  qed
qed

lemma dedupedTradeId_insert:
  "dedupedTradeId (insert k S) xs = dedupedTradeId S (filter (\<lambda>y. t_sku y \<noteq> k) xs)"
  by (induction xs arbitrary: S) (auto simp: insert_commute)

lemma dedupedTradeId_first: "dedupedTradeId {} xs = firstOccurrences xs"
proof (induction xs rule: firstOccurrences.induct)
  case 1
  then show ?case by simp
next
  case (2 x xs)
  then show ?case by (simp add: dedupedTradeId_insert)
qed

lemma firstOccurrences_set: "set (firstOccurrences xs) \<subseteq> set xs"
  by (induction xs rule: firstOccurrences.induct) auto

lemma firstOccurrences_distinct: "distinct (map t_sku (firstOccurrences xs))"
proof (induction xs rule: firstOccurrences.induct)
  case 1
  then show ?case by simp
next
  case (2 x xs)
  have "t_sku x \<notin> t_sku ` set (firstOccurrences (filter (\<lambda>y. t_sku y \<noteq> t_sku x) xs))"
    using firstOccurrences_set [of "filter (\<lambda>y. t_sku y \<noteq> t_sku x) xs"] by auto
  with 2 show ?case by simp
qed

subsection \<open>The join\<close>

lemma combineItem_usable:
  "bothCostsUsable D t \<Longrightarrow> combineItem (digitalIdMap Map.empty D) t = mergedRecord D t"
  by (auto simp: bothCostsUsable_def combineItem_def mergedRecord_def getOrNull_def orNull_def
        digitalIdMap_find split: option.splits)

lemma combine_filter_iff:
  "(s1_cost (p_set1 (combineItem (digitalIdMap Map.empty D) t)) \<noteq> None
     \<and> s2_cost (p_set2 (combineItem (digitalIdMap Map.empty D) t)) \<noteq> None)
   = bothCostsUsable D t"
  by (auto simp: bothCostsUsable_def combineItem_def getOrNull_def orNull_def
        digitalIdMap_find split: option.splits)

lemma combineData_eq:
  "combineData T D = map (mergedRecord D) (filter (bothCostsUsable D) (firstOccurrences T))"
proof -
  have "combineData T D
      = map (combineItem (digitalIdMap Map.empty D))
          (filter (bothCostsUsable D) (firstOccurrences T))"
    by (simp only: combineData_def Let_def filter_map o_def combine_filter_iff
          dedupedTradeId_first)
  also have "\<dots> = map (mergedRecord D) (filter (bothCostsUsable D) (firstOccurrences T))"
    by (rule map_cong) (auto simp: combineItem_usable)
  finally show ?thesis .
qed

lemma combineData_distinct: "distinct (map p_sku (combineData T D))"
proof -
  have "map p_sku (combineData T D) = map t_sku (filter (bothCostsUsable D) (firstOccurrences T))"
    by (simp add: combineData_eq mergedRecord_def o_def)
  then show ?thesis
    by (simp add: firstOccurrences_distinct distinct_map_filter)
qed

lemma combineData_nonnull:
  "p \<in> set (combineData T D) \<Longrightarrow> s1_cost (p_set1 p) \<noteq> None \<and> s2_cost (p_set2 p) \<noteq> None"
  by (simp add: combineData_def Let_def)

text \<open>The costs of a combined product are those of an input record of each side.\<close>

lemma combineData_costs:
  assumes "p \<in> set (combineData T D)"
  shows "\<exists>t\<in>set T. \<exists>d\<in>set D. s1_cost (p_set1 p) = t_price t \<and> t_price t \<noteq> None
           \<and> s2_cost (p_set2 p) = d_price d \<and> d_price d \<noteq> None"
proof -
  from assms obtain t where
    t: "t \<in> set (firstOccurrences T)" "bothCostsUsable D t" "p = mergedRecord D t"
    by (auto simp: combineData_eq)
  from t(2) obtain d where
    d: "firstDigital D (t_sku t) = Some d" "d_price d \<noteq> None" "t_price t \<noteq> None"
    by (auto simp: bothCostsUsable_def split: option.splits)
  have "d \<in> set D" using d(1) by (auto simp: firstDigital_def find_Some_iff)
  moreover have "t \<in> set T" using t(1) firstOccurrences_set by auto
  ultimately show ?thesis using t(3) d by (auto simp: mergedRecord_def)
qed

section \<open>Sheet parsers\<close>

lemma orNull_neq_sentinel: "(orNull v \<noteq> Some (Fin (- 1))) = (v \<noteq> Fin (- 1))"
  by (auto simp: orNull_def)

lemma orNull_not_zero: "orNull v \<noteq> Some (Fin 0)"
  by (auto simp: orNull_def)

lemma orNull_NaN: "orNull NaN = None"
  by (simp add: orNull_def)

lemma orNull_zero: "orNull (Fin 0) = None"
  by (simp add: orNull_def)

lemma tradeRecord_fields:
  "t_sku (tradeRecord lower headers row) = tradeKey lower headers row"
  "t_price (tradeRecord lower headers row) = orNull (tradeCost lower headers row)"
  by (simp_all add: tradeRecord_def tradeRow_def tradeKey_def tradeCost_def)

lemma digitalRecord_fields:
  "d_sku (digitalRecord lower b headers row) = digitalKey lower headers row"
  "d_price (digitalRecord lower b headers row) = orNull (digitalCost lower headers row)"
  by (simp_all add: digitalRecord_def digitalRow_def digitalKey_def digitalCost_def Let_def)

lemma tl_short: "length rows < 2 \<Longrightarrow> tl rows = []"
  by (cases rows) auto

text \<open>
  Filtering the records is filtering the rows: a sheet with fewer than two rows has no
  data row.
\<close>

lemma parseTradeIdSheet_eq:
  "parseTradeIdSheet lower rows
     = map (tradeRecord lower (hd rows))
         (filter (\<lambda>row. keepRow (tradeKey lower (hd rows) row) (tradeCost lower (hd rows) row))
            (tl rows))"
proof (cases "length rows < 2")
  case True
  then show ?thesis by (simp add: parseTradeIdSheet_def tl_short)
next
  case False
  have "parseTradeIdSheet lower rows
      = filter (\<lambda>item. t_sku item \<noteq> [] \<and> t_price item \<noteq> Some (Fin (- 1)))
          (map (tradeRecord lower (hd rows)) (tl rows))"
    using False by (simp add: parseTradeIdSheet_def Let_def tradeRecord_def [abs_def])
  then show ?thesis
    by (simp only: filter_map o_def tradeRecord_fields orNull_neq_sentinel keepRow_def)
qed

lemma parseDigitalIdSheet_eq:
  "parseDigitalIdSheet lower rows b
     = map (digitalRecord lower b (hd rows))
         (filter (\<lambda>row. keepRow (digitalKey lower (hd rows) row) (digitalCost lower (hd rows) row))
            (tl rows))"
proof (cases "length rows < 2")
  case True
  then show ?thesis by (simp add: parseDigitalIdSheet_def tl_short)
next
  case False
  have "parseDigitalIdSheet lower rows b
      = filter (\<lambda>item. d_sku item \<noteq> [] \<and> d_price item \<noteq> Some (Fin (- 1)))
          (map (digitalRecord lower b (hd rows)) (tl rows))"
    using False by (simp add: parseDigitalIdSheet_def Let_def digitalRecord_def [abs_def])
  then show ?thesis
    by (simp only: filter_map o_def digitalRecord_fields orNull_neq_sentinel keepRow_def)
qed

lemma parseTradeIdSheet_prices:
  "item \<in> set (parseTradeIdSheet lower rows) \<Longrightarrow> \<exists>v. t_price item = orNull v"
  by (auto simp: parseTradeIdSheet_eq tradeRecord_fields)

lemma parseDigitalIdSheet_prices:
  "item \<in> set (parseDigitalIdSheet lower rows b) \<Longrightarrow> \<exists>v. d_price item = orNull v"
  by (auto simp: parseDigitalIdSheet_eq digitalRecord_fields)

subsection \<open>The concrete sheets\<close>

lemma tradeHeader_columns:
  "tradeRecord asciiLower tradeHeader row = tradeRow (- 1) (- 1) 1 0 (- 1) row"
  "tradeKey asciiLower tradeHeader row = orEmpty (cell row 0)"
  "tradeCost asciiLower tradeHeader row = parseFloat (ToString (cell row 1))"
  by (simp_all add: tradeRecord_def tradeKey_def tradeCost_def tradeHeader_def findIndex_def
        asciiLower_def ascii_def)

lemma digitalHeader_columns:
  "digitalRecord asciiLower b digitalHeader row = digitalRow b 1 0 (- 1) (- 1) row"
  "digitalKey asciiLower digitalHeader row = orEmpty (cell row 0)"
  "digitalCost asciiLower digitalHeader row
     = parseFloat (trim (stripCurrency (orEmpty (cell row 1))))"
  by (simp_all add: digitalRecord_def digitalKey_def digitalCost_def digitalHeader_def
        findIndex_def asciiLower_def ascii_def)

lemma tradeSheet_costs:
  "parseFloat (ascii ''10'') = Fin 10" "parseFloat (ascii ''-1'') = Fin (- 1)"
  "parseFloat (ascii ''n/a'') = NaN" "parseFloat (ascii ''7'') = Fin 7"
  "parseFloat (ascii ''0'') = Fin 0" "parseInt (ascii ''undefined'') = NaN"
  by (simp_all add: parseFloat_eval parseInt_eval ascii_def)

lemma digitalSheet_costs:
  "parseFloat (trim (stripCurrency (163 # ascii ''12.00''))) = Fin 12"
  "parseFloat (trim (stripCurrency (ascii ''9''))) = Fin 9"
  "parseFloat (trim (stripCurrency (ascii ''0.00''))) = Fin 0"
  by (simp_all add: parseFloat_eval trim_def stripCurrency_def ascii_def)

lemma tradeSheet_parsed:
  "parseTradeIdSheet asciiLower tradeSheet
     = [tradeItem ''A'' (Some (Fin 10)), tradeItem ''C'' None, tradeItem ''E'' None]"
  by (simp add: parseTradeIdSheet_eq tradeSheet_def tradeHeader_columns keepRow_def tradeRow_def
        cell_def orEmpty_def orNull_def ToString_def tradeSheet_costs tradeItem_def ascii_eq_Nil)

lemma digitalSheet_parsed:
  "parseDigitalIdSheet asciiLower digitalSheet False
     = [digitalItem ''A'' (Some (Fin 12)), digitalItem ''C'' (Some (Fin 9)),
        digitalItem ''E'' None]"
  by (simp add: parseDigitalIdSheet_eq digitalSheet_def digitalHeader_columns keepRow_def
        digitalRow_def cell_def orEmpty_def orNull_def digitalSheet_costs digitalItem_def
        ascii_eq_Nil)

lemma scenario_combined:
  "combineData [tradeItem ''A'' (Some (Fin 10)), tradeItem ''C'' None, tradeItem ''E'' None]
       [digitalItem ''A'' (Some (Fin 12)), digitalItem ''C'' (Some (Fin 9)),
        digitalItem ''E'' None]
     = [\<lparr> p_sku = ascii ''A'', p_productId = [],
          p_set1 = \<lparr> s1_name = [], s1_cost = Some (Fin 10), s1_stock = None \<rparr>,
          p_set2 = \<lparr> s2_cost = Some (Fin 12) \<rparr> \<rparr>]"
  by (simp add: combineData_eq bothCostsUsable_def firstDigital_def mergedRecord_def
        tradeItem_def digitalItem_def ascii_def)

subsection \<open>The keep policy\<close>

text \<open>
  Claim C4. Both parsers are total functions of the grid: no \<open>throw\<close> is reachable for a
  grid of string cells, a missing column reads as \<open>undefined\<close> and a short grid gives the
  empty list. The output is the list of the records of the data rows that satisfy
  \<open>keep(row) = key != "" AND cost != -1\<close>, one record per such row and in the order of
  the rows, where the key and the cost are the row's SKU cell and its parsed price. A row
  whose price does not parse (\<open>NaN\<close>) satisfies the policy exactly when its key is not
  empty, and its record has the cost \<open>null\<close>.
\<close>

theorem parse_sheets_keep_policy:
  "parseTradeIdSheet lower rows
     = map (tradeRecord lower (hd rows))
         (filter (\<lambda>row. keepRow (tradeKey lower (hd rows) row) (tradeCost lower (hd rows) row))
            (tl rows))
   \<and> parseDigitalIdSheet lower rows b
     = map (digitalRecord lower b (hd rows))
         (filter (\<lambda>row. keepRow (digitalKey lower (hd rows) row) (digitalCost lower (hd rows) row))
            (tl rows))
   \<and> t_sku (tradeRecord lower headers row) = tradeKey lower headers row
   \<and> t_price (tradeRecord lower headers row) = orNull (tradeCost lower headers row)
   \<and> d_sku (digitalRecord lower b headers row) = digitalKey lower headers row
   \<and> d_price (digitalRecord lower b headers row) = orNull (digitalCost lower headers row)
   \<and> (tradeCost lower headers row = NaN \<longrightarrow>
        keepRow (tradeKey lower headers row) (tradeCost lower headers row)
          = (tradeKey lower headers row \<noteq> [])
        \<and> t_price (tradeRecord lower headers row) = None)
   \<and> (digitalCost lower headers row = NaN \<longrightarrow>
        keepRow (digitalKey lower headers row) (digitalCost lower headers row)
          = (digitalKey lower headers row \<noteq> [])
        \<and> d_price (digitalRecord lower b headers row) = None)"
  using parseTradeIdSheet_eq [of lower rows] parseDigitalIdSheet_eq [of lower rows b]
  by (simp add: tradeRecord_fields digitalRecord_fields keepRow_def orNull_NaN)

text \<open>
  The Trade-Id sheet above: the rows \<open>A\<close>, \<open>C\<close> and \<open>E\<close> are kept, the row with the
  sentinel and the row without SKU are not, and the row \<open>C\<close>, whose price is \<open>n/a\<close>, has
  the cost \<open>null\<close>.
\<close>

theorem parse_sheets_keep_policy_witness:
  "parseTradeIdSheet asciiLower tradeSheet
     = [tradeItem ''A'' (Some (Fin 10)), tradeItem ''C'' None, tradeItem ''E'' None]
   \<and> tradeCost asciiLower tradeHeader [ascii ''C'', ascii ''n/a''] = NaN
   \<and> t_price (tradeRecord asciiLower tradeHeader [ascii ''C'', ascii ''n/a'']) = None"
  using parse_sheets_keep_policy
    [of asciiLower tradeSheet False tradeHeader "[ascii ''C'', ascii ''n/a'']"]
  by (simp add: tradeSheet_def tradeHeader_columns keepRow_def tradeRow_def
        cell_def orEmpty_def orNull_def ToString_def tradeSheet_costs tradeItem_def ascii_eq_Nil)

subsection \<open>A cost of zero\<close>

text \<open>
  Claim C10. A data row whose price parses to 0 gets the cost \<open>null\<close> in its record, in
  both parsers; no record of a parsed sheet has the cost 0; every product combined from
  two parsed sheets has both costs non-null and different from 0; and the record of a
  row priced 0 is combined into no product.
\<close>

theorem parsed_zero_cost_is_null:
  "(tradeCost lower headers row = Fin 0 \<longrightarrow> t_price (tradeRecord lower headers row) = None)
   \<and> (digitalCost lower headers row = Fin 0 \<longrightarrow>
        d_price (digitalRecord lower b headers row) = None)
   \<and> (\<forall>item\<in>set (parseTradeIdSheet lower rows). t_price item \<noteq> Some (Fin 0))
   \<and> (\<forall>item\<in>set (parseDigitalIdSheet lower rows b). d_price item \<noteq> Some (Fin 0))
   \<and> (\<forall>p\<in>set (combineData (parseTradeIdSheet lower rows) (parseDigitalIdSheet lower rows2 b)).
         s1_cost (p_set1 p) \<noteq> None \<and> s1_cost (p_set1 p) \<noteq> Some (Fin 0)
         \<and> s2_cost (p_set2 p) \<noteq> None \<and> s2_cost (p_set2 p) \<noteq> Some (Fin 0))
   \<and> (tradeCost lower headers row = Fin 0 \<longrightarrow>
         combineItem m (tradeRecord lower headers row) \<notin> set (combineData T D))"
proof (intro conjI ballI impI)
  show "t_price (tradeRecord lower headers row) = None" if "tradeCost lower headers row = Fin 0"
    using that by (simp add: tradeRecord_fields orNull_zero)
  show "d_price (digitalRecord lower b headers row) = None"
    if "digitalCost lower headers row = Fin 0"
    using that by (simp add: digitalRecord_fields orNull_zero)
  show "t_price item \<noteq> Some (Fin 0)" if "item \<in> set (parseTradeIdSheet lower rows)" for item
    using parseTradeIdSheet_prices [OF that] by (metis orNull_not_zero)
  show "d_price item \<noteq> Some (Fin 0)" if "item \<in> set (parseDigitalIdSheet lower rows b)" for item
    using parseDigitalIdSheet_prices [OF that] by (metis orNull_not_zero)
  show "combineItem m (tradeRecord lower headers row) \<notin> set (combineData T D)"
    if "tradeCost lower headers row = Fin 0"
  proof
    assume "combineItem m (tradeRecord lower headers row) \<in> set (combineData T D)"
    then have "s1_cost (p_set1 (combineItem m (tradeRecord lower headers row))) \<noteq> None"
      using combineData_nonnull by blast
    then show False using that by (simp add: combineItem_def tradeRecord_fields orNull_zero)
  qed
next
  fix p
  assume p: "p \<in> set (combineData (parseTradeIdSheet lower rows)
                        (parseDigitalIdSheet lower rows2 b))"
  from combineData_costs [OF p] obtain t d where
    t: "t \<in> set (parseTradeIdSheet lower rows)" "s1_cost (p_set1 p) = t_price t"
       "t_price t \<noteq> None"
    and d: "d \<in> set (parseDigitalIdSheet lower rows2 b)" "s2_cost (p_set2 p) = d_price d"
       "d_price d \<noteq> None"
    by blast
  have t0: "t_price t \<noteq> Some (Fin 0)"
    using parseTradeIdSheet_prices [OF t(1)] by (metis orNull_not_zero)
  have d0: "d_price d \<noteq> Some (Fin 0)"
    using parseDigitalIdSheet_prices [OF d(1)] by (metis orNull_not_zero)
  show "s1_cost (p_set1 p) \<noteq> None" using t by simp
  show "s1_cost (p_set1 p) \<noteq> Some (Fin 0)" using t t0 by simp
  show "s2_cost (p_set2 p) \<noteq> None" using d by simp
  show "s2_cost (p_set2 p) \<noteq> Some (Fin 0)" using d d0 by simp
qed

text \<open>
  The row \<open>E\<close> of the Trade-Id sheet is priced 0: its record is in the parsed list with
  the cost \<open>null\<close>, and the products combined from the two sheets are the one for \<open>A\<close>.
\<close>

theorem parsed_zero_cost_is_null_witness:
  "tradeCost asciiLower tradeHeader [ascii ''E'', ascii ''0''] = Fin 0
   \<and> t_price (tradeRecord asciiLower tradeHeader [ascii ''E'', ascii ''0'']) = None
   \<and> tradeItem ''E'' None \<in> set (parseTradeIdSheet asciiLower tradeSheet)
   \<and> map t_price (parseTradeIdSheet asciiLower tradeSheet) = [Some (Fin 10), None, None]
   \<and> map p_sku (combineData (parseTradeIdSheet asciiLower tradeSheet)
                   (parseDigitalIdSheet asciiLower digitalSheet False)) = [ascii ''A'']"
proof -
  note c = parsed_zero_cost_is_null
    [of asciiLower tradeHeader "[ascii ''E'', ascii ''0'']" False tradeSheet digitalSheet]
  have zero: "tradeCost asciiLower tradeHeader [ascii ''E'', ascii ''0''] = Fin 0"
    by (simp add: tradeHeader_columns cell_def ToString_def tradeSheet_costs)
  have null: "t_price (tradeRecord asciiLower tradeHeader [ascii ''E'', ascii ''0'']) = None"
    using c zero by simp
  have kept: "tradeItem ''E'' None \<in> set (parseTradeIdSheet asciiLower tradeSheet)"
    by (simp add: tradeSheet_parsed)
  have prices: "map t_price (parseTradeIdSheet asciiLower tradeSheet) = [Some (Fin 10), None, None]"
    by (simp add: tradeSheet_parsed tradeItem_def)
  have merged: "map p_sku (combineData (parseTradeIdSheet asciiLower tradeSheet)
                   (parseDigitalIdSheet asciiLower digitalSheet False)) = [ascii ''A'']"
    by (simp add: tradeSheet_parsed digitalSheet_parsed scenario_combined)
  show ?thesis
    by (intro conjI) (rule zero null kept prices merged)+
qed

section \<open>The join on the lists the parsers produce\<close>

text \<open>
  \<open>combineData\<close> is called with the output of \<open>parseDigitalIdSheet\<close>, whose costs are
  \<open>parseFloat(...) || null\<close>: never \<open>0\<close> and never \<open>NaN\<close>.
\<close>

lemma parseDigitalIdSheet_truthy:
  assumes "d \<in> set (parseDigitalIdSheet lower rows b)"
  shows "d_price d \<noteq> Some (Fin 0) \<and> d_price d \<noteq> Some NaN"
proof -
  from parseDigitalIdSheet_prices [OF assms] obtain v where "d_price d = orNull v" by blast
  then show ?thesis by (cases v) (auto simp: orNull_def)
qed

text \<open>For such a secondary list, a cost that is non-null is truthy.\<close>

lemma bothCostsUsable_present:
  assumes "\<forall>d\<in>set D. d_price d \<noteq> Some (Fin 0) \<and> d_price d \<noteq> Some NaN"
  shows "bothCostsUsable D t = bothCostsPresent D t"
proof (cases "firstDigital D (t_sku t)")
  case None
  then show ?thesis by (simp add: bothCostsUsable_def bothCostsPresent_def)
next
  case (Some d)
  then have "d \<in> set D" by (auto simp: firstDigital_def find_Some_iff)
  with assms have p: "d_price d \<noteq> Some (Fin 0)" "d_price d \<noteq> Some NaN" by auto
  show ?thesis
  proof (cases "d_price d")
    case None
    with Some show ?thesis by (simp add: bothCostsUsable_def bothCostsPresent_def)
  next
    case (Some c)
    with p have "truthy c" by (cases c) auto
    with Some \<open>firstDigital D (t_sku t) = Some d\<close> show ?thesis
      by (simp add: bothCostsUsable_def bothCostsPresent_def)
  qed
qed

lemma combineData_present:
  assumes "\<forall>d\<in>set D. d_price d \<noteq> Some (Fin 0) \<and> d_price d \<noteq> Some NaN"
  shows "combineData T D = map (mergedRecord D) (filter (bothCostsPresent D) (firstOccurrences T))"
proof -
  have "bothCostsUsable D = bothCostsPresent D"
    using bothCostsUsable_present [OF assms] by (rule ext)
  then show ?thesis by (simp add: combineData_eq)
qed

text \<open>
  Claim C1. Let the secondary list carry costs as the parser records them (\<open>null\<close> or a
  number that is neither \<open>0\<close> nor \<open>NaN\<close>); every list that \<open>parseDigitalIdSheet\<close> returns
  is such a list. Then \<open>combineData\<close> keeps the first occurrence of every key on each side,
  in input order, and emits one merged record per kept primary record exactly when its
  cost and the cost of the first secondary record with its key are both non-null, in the
  order of the primary list; for the primary list with key \<open>A\<close> at costs 10 and 99 this is
  the one record built from cost 10 when a secondary cost for \<open>A\<close> is present. In
  particular this is what \<open>combineData\<close> returns on every pair of parsed sheets. For all
  lists, no two emitted records share a key and both costs of an emitted record are
  non-null.
\<close>

theorem combineData_first_occurrence_join:
  "((\<forall>d\<in>set D. d_price d \<noteq> Some (Fin 0) \<and> d_price d \<noteq> Some NaN) \<longrightarrow>
      combineData T D = map (mergedRecord D) (filter (bothCostsPresent D) (firstOccurrences T))
      \<and> combineData dupTrade D
          = (if bothCostsPresent D (tradeItem ''A'' (Some (Fin 10)))
             then [mergedRecord D (tradeItem ''A'' (Some (Fin 10)))] else []))
   \<and> combineData (parseTradeIdSheet lower rows) (parseDigitalIdSheet lower rows2 b)
       = map (mergedRecord (parseDigitalIdSheet lower rows2 b))
           (filter (bothCostsPresent (parseDigitalIdSheet lower rows2 b))
              (firstOccurrences (parseTradeIdSheet lower rows)))
   \<and> distinct (map p_sku (combineData T D))
   \<and> (\<forall>p\<in>set (combineData T D). s1_cost (p_set1 p) \<noteq> None \<and> s2_cost (p_set2 p) \<noteq> None)"
proof (intro conjI impI ballI)
  assume a: "\<forall>d\<in>set D. d_price d \<noteq> Some (Fin 0) \<and> d_price d \<noteq> Some NaN"
  then show "combineData T D
      = map (mergedRecord D) (filter (bothCostsPresent D) (firstOccurrences T))"
    by (rule combineData_present)
  show "combineData dupTrade D
          = (if bothCostsPresent D (tradeItem ''A'' (Some (Fin 10)))
             then [mergedRecord D (tradeItem ''A'' (Some (Fin 10)))] else [])"
    by (simp add: combineData_present [OF a] dupTrade_def tradeItem_def)
next
  have "\<forall>d\<in>set (parseDigitalIdSheet lower rows2 b).
          d_price d \<noteq> Some (Fin 0) \<and> d_price d \<noteq> Some NaN"
    using parseDigitalIdSheet_truthy by blast
  then show "combineData (parseTradeIdSheet lower rows) (parseDigitalIdSheet lower rows2 b)
       = map (mergedRecord (parseDigitalIdSheet lower rows2 b))
           (filter (bothCostsPresent (parseDigitalIdSheet lower rows2 b))
              (firstOccurrences (parseTradeIdSheet lower rows)))"
    by (rule combineData_present)
next
  show "distinct (map p_sku (combineData T D))"
    by (rule combineData_distinct)
  show "s1_cost (p_set1 p) \<noteq> None" if "p \<in> set (combineData T D)" for p
    using that combineData_nonnull by blast
  show "s2_cost (p_set2 p) \<noteq> None" if "p \<in> set (combineData T D)" for p
    using that combineData_nonnull by blast
qed

text \<open>
  Scenario 4 with a secondary list that has the key \<open>A\<close> twice, at costs 12 and 50: one
  record, with primary cost 10 and secondary cost 12. The two parsed sheets above combine
  to the one product for \<open>A\<close>.
\<close>

theorem combineData_first_occurrence_join_witness:
  "combineData dupTrade [digitalItem ''A'' (Some (Fin 12)), digitalItem ''A'' (Some (Fin 50))]
     = [\<lparr> p_sku = ascii ''A'', p_productId = [],
          p_set1 = \<lparr> s1_name = [], s1_cost = Some (Fin 10), s1_stock = None \<rparr>,
          p_set2 = \<lparr> s2_cost = Some (Fin 12) \<rparr> \<rparr>]
   \<and> map p_sku (combineData (parseTradeIdSheet asciiLower tradeSheet)
                   (parseDigitalIdSheet asciiLower digitalSheet False)) = [ascii ''A'']"
proof -
  let ?D = "[digitalItem ''A'' (Some (Fin 12)), digitalItem ''A'' (Some (Fin 50))]"
  note c = combineData_first_occurrence_join [of ?D dupTrade asciiLower tradeSheet digitalSheet False]
  have h: "\<forall>d\<in>set ?D. d_price d \<noteq> Some (Fin 0) \<and> d_price d \<noteq> Some NaN"
    by (simp add: digitalItem_def)
  have p: "bothCostsPresent ?D (tradeItem ''A'' (Some (Fin 10)))"
    by (simp add: bothCostsPresent_def firstDigital_def tradeItem_def digitalItem_def)
  from c h have "combineData dupTrade ?D
      = (if bothCostsPresent ?D (tradeItem ''A'' (Some (Fin 10)))
         then [mergedRecord ?D (tradeItem ''A'' (Some (Fin 10)))] else [])"
    by blast
  then have one: "combineData dupTrade ?D
     = [\<lparr> p_sku = ascii ''A'', p_productId = [],
          p_set1 = \<lparr> s1_name = [], s1_cost = Some (Fin 10), s1_stock = None \<rparr>,
          p_set2 = \<lparr> s2_cost = Some (Fin 12) \<rparr> \<rparr>]"
    using p by (simp add: mergedRecord_def firstDigital_def tradeItem_def digitalItem_def)
  have parsed: "map p_sku (combineData (parseTradeIdSheet asciiLower tradeSheet)
                   (parseDigitalIdSheet asciiLower digitalSheet False)) = [ascii ''A'']"
    by (simp add: tradeSheet_parsed digitalSheet_parsed scenario_combined)
  show ?thesis
    by (intro conjI) (rule one parsed)+
qed

section \<open>Batch propagator\<close>

lemma searchedSkus_append: "searchedSkus (xs @ ys) = searchedSkus xs @ searchedSkus ys"
  by (induction xs rule: searchedSkus.induct) auto


lemma getZohoAccessToken_trace: "snd (getZohoAccessToken svc h) = h @ [TokenCall]"
  by (simp add: getZohoAccessToken_def split: sum.splits option.splits)

lemma zohoSearchItemBySku_trace:
  "snd (zohoSearchItemBySku svc t org sku h) = h @ [SearchCall t org sku]"
  by (simp add: zohoSearchItemBySku_def split: sum.splits)

lemma zohoUpdateItemPrices_trace:
  "snd (zohoUpdateItemPrices svc t org i c s h) = h @ [UpdateCall t org i c s]"
  by (simp add: zohoUpdateItemPrices_def split: sum.splits)

lemma batchUpdateItem_sku: "r_sku (fst (batchUpdateItem svc t org item h)) = i_sku item"
  by (simp add: batchUpdateItem_def split: prod.splits sum.splits option.splits)

lemma batchUpdateItem_searched:
  "searchedSkus (snd (batchUpdateItem svc t org item h)) = searchedSkus h @ [i_sku item]"
proof -
  obtain r1 h1 where s: "zohoSearchItemBySku svc t org (i_sku item) h = (r1, h1)" by force
  then have h1: "h1 = h @ [SearchCall t org (i_sku item)]"
    using zohoSearchItemBySku_trace [of svc t org "i_sku item" h] by simp
  show ?thesis
  proof (cases r1)
    case (Inl e)
    then show ?thesis using s h1 by (simp add: batchUpdateItem_def searchedSkus_append)
  next
    case (Inr found)
    show ?thesis
    proof (cases found)
      case None
      then show ?thesis using s h1 Inr by (simp add: batchUpdateItem_def searchedSkus_append)
    next
      case (Some z)
      obtain r2 h2 where u: "zohoUpdateItemPrices svc t org (item_id z) (i_costPrice item) (i_sellingPrice item) h1 = (r2, h2)"
        by force
      then have "h2 = h1 @ [UpdateCall t org (item_id z) (i_costPrice item) (i_sellingPrice item)]"
        using zohoUpdateItemPrices_trace [of svc t org "item_id z" "i_costPrice item" "i_sellingPrice item" h1] by simp
      then show ?thesis using s h1 Inr Some u
        by (cases r2) (simp_all add: batchUpdateItem_def searchedSkus_append)
    qed
  qed
qed

lemma batchUpdateItem_search_throws:
  "fst (zohoSearchItemBySku svc t org (i_sku item) h) = Inl e
     \<Longrightarrow> fst (batchUpdateItem svc t org item h)
           = \<lparr> r_sku = i_sku item, r_success = False, r_error = Some e \<rparr>"
  by (auto simp: batchUpdateItem_def split: prod.splits sum.splits option.splits)

lemma batchUpdateItem_not_found:
  "fst (zohoSearchItemBySku svc t org (i_sku item) h) = Inr None
     \<Longrightarrow> fst (batchUpdateItem svc t org item h)
           = \<lparr> r_sku = i_sku item, r_success = False, r_error = Some (ascii ''Item not found'') \<rparr>"
  by (auto simp: batchUpdateItem_def split: prod.splits sum.splits option.splits)

lemma batchUpdateItem_update_throws:
  "zohoSearchItemBySku svc t org (i_sku item) h = (Inr (Some z), h1)
     \<Longrightarrow> fst (zohoUpdateItemPrices svc t org (item_id z) (i_costPrice item) (i_sellingPrice item) h1) = Inl e
     \<Longrightarrow> fst (batchUpdateItem svc t org item h)
           = \<lparr> r_sku = i_sku item, r_success = False, r_error = Some e \<rparr>"
  by (auto simp: batchUpdateItem_def split: prod.splits sum.splits option.splits)

lemma batchUpdateLoop_acc:
  "batchUpdateLoop svc t org items results h
     = (results @ fst (batchUpdateLoop svc t org items [] h),
        snd (batchUpdateLoop svc t org items [] h))"
proof (induction items arbitrary: results h)
  case Nil
  then show ?case by simp
next
  case (Cons item items)
  obtain r h' where step: "batchUpdateItem svc t org item h = (r, h')" by force
  have "batchUpdateLoop svc t org (item # items) results h
          = batchUpdateLoop svc t org items (results @ [r]) h'"
    using step by simp
  also have "\<dots> = ((results @ [r]) @ fst (batchUpdateLoop svc t org items [] h'),
                     snd (batchUpdateLoop svc t org items [] h'))"
    by (rule Cons.IH)
  also have "batchUpdateLoop svc t org (item # items) [] h
          = batchUpdateLoop svc t org items ([] @ [r]) h'"
    using step by simp
  then have "batchUpdateLoop svc t org (item # items) [] h
          = (([] @ [r]) @ fst (batchUpdateLoop svc t org items [] h'),
             snd (batchUpdateLoop svc t org items [] h'))"
    using Cons.IH [of "[] @ [r]" h'] by simp
  ultimately show ?case by simp
qed

lemma batchUpdateLoop_Cons:
  "batchUpdateLoop svc t org (item # items) [] h
     = (fst (batchUpdateItem svc t org item h)
          # fst (batchUpdateLoop svc t org items [] (snd (batchUpdateItem svc t org item h))),
        snd (batchUpdateLoop svc t org items [] (snd (batchUpdateItem svc t org item h))))"
proof -
  obtain r h' where step: "batchUpdateItem svc t org item h = (r, h')" by force
  then have "batchUpdateLoop svc t org (item # items) [] h = batchUpdateLoop svc t org items [r] h'"
    by simp
  then show ?thesis using batchUpdateLoop_acc [of svc t org items "[r]" h'] step by simp
qed

lemma batchUpdateLoop_length:
  "length (fst (batchUpdateLoop svc t org items [] h)) = length items"
  by (induction items arbitrary: h) (simp_all add: batchUpdateLoop_Cons del: batchUpdateLoop.simps(2))

lemma batchUpdateLoop_skus:
  "map r_sku (fst (batchUpdateLoop svc t org items [] h)) = map i_sku items"
  by (induction items arbitrary: h) (simp_all add: batchUpdateLoop_Cons batchUpdateItem_sku del: batchUpdateLoop.simps(2))

lemma batchUpdateLoop_searched:
  "searchedSkus (snd (batchUpdateLoop svc t org items [] h)) = searchedSkus h @ map i_sku items"
  by (induction items arbitrary: h) (simp_all add: batchUpdateLoop_Cons batchUpdateItem_searched del: batchUpdateLoop.simps(2))

lemma batchUpdateLoop_at:
  "fst (batchUpdateLoop svc t org (pre @ item # post) [] h) ! length pre
     = fst (batchUpdateItem svc t org item (snd (batchUpdateLoop svc t org pre [] h)))"
proof (induction pre arbitrary: h)
  case Nil
  then show ?case by (simp add: batchUpdateLoop_Cons del: batchUpdateLoop.simps(2))
next
  case (Cons p pre)
  then show ?case by (simp add: batchUpdateLoop_Cons del: batchUpdateLoop.simps(2))
qed

subsection \<open>Scenario 5, evaluated\<close>

lemmas batch_eval = batchUpdate_def getZohoAccessToken_def batchUpdateItem_def
  zohoSearchItemBySku_def zohoUpdateItemPrices_def

lemma scenario_batch:
  "batchUpdate scenarioService (ascii ''org'') (Inr (Some scenarioItems)) []
     = (\<lparr> status = 200, body = ResultsBody
           [\<lparr> r_sku = ascii ''A'', r_success = True, r_error = None \<rparr>,
            \<lparr> r_sku = ascii ''B'', r_success = False, r_error = Some (ascii ''lookup failed'') \<rparr>,
            \<lparr> r_sku = ascii ''C'', r_success = True, r_error = None \<rparr>] \<rparr>,
        [TokenCall,
         SearchCall (Some (ascii ''token'')) (ascii ''org'') (ascii ''A''),
         UpdateCall (Some (ascii ''token'')) (ascii ''org'') (ascii ''A'') (Some (Fin 8)) (Some (Fin 10)),
         SearchCall (Some (ascii ''token'')) (ascii ''org'') (ascii ''B''),
         SearchCall (Some (ascii ''token'')) (ascii ''org'') (ascii ''C''),
         UpdateCall (Some (ascii ''token'')) (ascii ''org'') (ascii ''C'') (Some (Fin 8)) (Some (Fin 10))])"
  by (simp add: batch_eval scenarioService_def scenarioItems_def ascii_def)

subsection \<open>The handler\<close>

text \<open>
  Claim C6. When the item list is not empty and the access token is acquired, the
  handler answers with status 200 and a list of results that has one entry per item,
  in the order of the items and with their SKUs; every item is searched for, in order,
  whatever happened to the items before it. The entry at the position of an item is what
  the \<open>try\<close>/\<open>catch\<close> block gives for that item after the items before it; it is
  \<open>{sku, success: false, error}\<close> when the search throws, when it finds nothing
  (\<open>Item not found\<close>) and when the update throws.
\<close>

theorem batchUpdate_one_result_per_item:
  assumes "items \<noteq> []" and "fst (getZohoAccessToken svc h) = Inr tok"
  shows "\<exists>results h2.
      batchUpdate svc org (Inr (Some items)) h = (\<lparr> status = 200, body = ResultsBody results \<rparr>, h2)
      \<and> length results = length items
      \<and> map r_sku results = map i_sku items
      \<and> searchedSkus h2 = searchedSkus h @ map i_sku items
      \<and> (\<forall>pre item post. items = pre @ item # post \<longrightarrow>
            results ! length pre
              = fst (batchUpdateItem svc tok org item
                       (snd (batchUpdateLoop svc tok org pre [] (h @ [TokenCall])))))
      \<and> (\<forall>item hk e. fst (zohoSearchItemBySku svc tok org (i_sku item) hk) = Inl e \<longrightarrow>
            fst (batchUpdateItem svc tok org item hk)
              = \<lparr> r_sku = i_sku item, r_success = False, r_error = Some e \<rparr>)
      \<and> (\<forall>item hk. fst (zohoSearchItemBySku svc tok org (i_sku item) hk) = Inr None \<longrightarrow>
            fst (batchUpdateItem svc tok org item hk)
              = \<lparr> r_sku = i_sku item, r_success = False, r_error = Some (ascii ''Item not found'') \<rparr>)
      \<and> (\<forall>item hk z h1 e.
            zohoSearchItemBySku svc tok org (i_sku item) hk = (Inr (Some z), h1)
            \<and> fst (zohoUpdateItemPrices svc tok org (item_id z) (i_costPrice item)
                     (i_sellingPrice item) h1) = Inl e \<longrightarrow>
            fst (batchUpdateItem svc tok org item hk)
              = \<lparr> r_sku = i_sku item, r_success = False, r_error = Some e \<rparr>)"
proof -
  let ?h1 = "h @ [TokenCall]"
  let ?loop = "batchUpdateLoop svc tok org items [] ?h1"
  have tok: "getZohoAccessToken svc h = (Inr tok, ?h1)"
    using assms(2) getZohoAccessToken_trace [of svc h] by (simp add: prod_eq_iff)
  have resp: "batchUpdate svc org (Inr (Some items)) h
      = (\<lparr> status = 200, body = ResultsBody (fst ?loop) \<rparr>, snd ?loop)"
    using assms(1) tok by (simp add: batchUpdate_def split: prod.splits)
  have len: "length (fst ?loop) = length items"
    by (rule batchUpdateLoop_length)
  have skus: "map r_sku (fst ?loop) = map i_sku items"
    by (rule batchUpdateLoop_skus)
  have searched: "searchedSkus (snd ?loop) = searchedSkus h @ map i_sku items"
    by (simp add: batchUpdateLoop_searched searchedSkus_append)
  have at: "\<forall>pre item post. items = pre @ item # post \<longrightarrow>
            fst ?loop ! length pre
              = fst (batchUpdateItem svc tok org item (snd (batchUpdateLoop svc tok org pre [] ?h1)))"
    by (auto simp: batchUpdateLoop_at)
  show ?thesis
    using resp len skus searched at
      batchUpdateItem_search_throws [of svc tok org]
      batchUpdateItem_not_found [of svc tok org]
      batchUpdateItem_update_throws [of svc tok org]
    by blast
qed

text \<open>
  Scenario 5: three items, the search for the second one throws. The results are
  success, failure, success, and the items \<open>A\<close> and \<open>C\<close> are updated.
\<close>

theorem batchUpdate_one_result_per_item_witness:
  "scenarioItems \<noteq> []
   \<and> fst (getZohoAccessToken scenarioService []) = Inr (Some (ascii ''token''))
   \<and> (\<exists>results h2.
        batchUpdate scenarioService (ascii ''org'') (Inr (Some scenarioItems)) []
          = (\<lparr> status = 200, body = ResultsBody results \<rparr>, h2)
        \<and> length results = length scenarioItems
        \<and> map r_success results = [True, False, True]
        \<and> updatedIds h2 = [ascii ''A'', ascii ''C''])"
proof -
  have ne: "scenarioItems \<noteq> []" by (simp add: scenarioItems_def)
  have tok: "fst (getZohoAccessToken scenarioService []) = Inr (Some (ascii ''token''))"
    by (simp add: getZohoAccessToken_def scenarioService_def)
  from batchUpdate_one_result_per_item [OF ne tok, of "ascii ''org''"] obtain results h2 where
    r: "batchUpdate scenarioService (ascii ''org'') (Inr (Some scenarioItems)) []
          = (\<lparr> status = 200, body = ResultsBody results \<rparr>, h2)"
    and l: "length results = length scenarioItems"
    by blast
  from r have m: "map r_success results = [True, False, True]"
    and u: "updatedIds h2 = [ascii ''A'', ascii ''C'']"
    by (auto simp: scenario_batch)
  show ?thesis
    by (intro conjI exI [of _ results] exI [of _ h2]) (rule ne tok r l m u)+
qed






text \<open>
  Claim C8, as the code has it. The empty item list is rejected with status 400 and the
  top-level error \<open>Items array is required\<close>, and no call is made: the trace is unchanged.
\<close>

theorem batchUpdate_empty_rejected:
  "batchUpdate svc org (Inr (Some [])) h
     = (\<lparr> status = 400, body = ErrorBody (ascii ''Items array is required'') \<rparr>, h)"
  by (simp add: batchUpdate_def)

text \<open>
  Claim C8 as stated fails: for the empty item list the body of the answer is not the
  empty list of results.
\<close>

theorem batchUpdate_empty_counterexample:
  "body (fst (batchUpdate scenarioService (ascii ''org'') (Inr (Some [])) [])) \<noteq> ResultsBody []"
  by (simp add: batchUpdate_def)

end
